theory Spec2Isabelle
  imports Main "HOL-Library.AList" "HOL-Library.Char_ord" "HOL-Library.List_Lexorder"
    "HOL-Library.Monad_Syntax" "HOL-Library.Multiset"
begin

section \<open>Python values the program works on\<close>

text \<open>
  A Python \<open>str\<close> is modelled as a \<open>string\<close>: a list of characters, each read as one code
  point below 256. Exceptions are values of the type \<open>error\<close>, one constructor for each
  \<open>raise\<close> of the sources and for each failing library call they make; a function that
  can raise returns \<open>error + 'a\<close>, with \<open>Inl\<close> for the exception.
\<close>

datatype error =
    KeyError_subscript string      \<comment> \<open>\<open>d[k]\<close> on a dict without the key \<open>k\<close>\<close>
  | KeyError_exists string         \<comment> \<open>storage.py, \<open>add\<close>: "Item with id ... already exists"\<close>
  | KeyError_update string         \<comment> \<open>storage.py, \<open>update\<close>: "Cannot update missing item ..."\<close>
  | KeyError_no_todo string        \<comment> \<open>todo\_app.py, \<open>mark_done\<close>: "No todo item found with id ..."\<close>
  | ValueError_naive               \<comment> \<open>models.py, \<open>_ensure_tz\<close>: "datetime values must be timezone aware"\<close>
  | ValueError_isoformat           \<comment> \<open>\<open>datetime.fromisoformat\<close>: "Invalid isoformat string"\<close>
  | TypeError_compare              \<comment> \<open>ordering an offset-naive against an offset-aware datetime\<close>
  | GraphApiError nat string       \<comment> \<open>graph.py: status code and text of a failed call\<close>
  | RuntimeError string            \<comment> \<open>graph.py: "Unable to obtain access token: ..."\<close>
  | OSError_name_too_long string   \<comment> \<open>\<open>Path.write_text\<close>: "[Errno 36] File name too long"\<close>

subsection \<open>Decimal fields\<close>

definition digit_char :: "nat \<Rightarrow> char" where
  "digit_char n = char_of (48 + n)"

definition is_digit :: "char \<Rightarrow> bool" where
  "is_digit c = (48 \<le> (of_char c :: nat) \<and> (of_char c :: nat) \<le> 57)"

definition digit_val :: "char \<Rightarrow> nat" where
  "digit_val c = of_char c - 48"

text \<open>\<open>str(n)\<close> for an integer \<open>n \<ge> 0\<close>.\<close>

fun str_nat :: "nat \<Rightarrow> string" where
  "str_nat n = (if n < 10 then [digit_char n] else str_nat (n div 10) @ [digit_char (n mod 10)])"

declare str_nat.simps [simp del]

text \<open>\<open>"%0wd" % n\<close> for \<open>n \<ge> 0\<close>: at least \<open>w\<close> digits, padded with zeros on the left.\<close>

definition fmt_d :: "nat \<Rightarrow> nat \<Rightarrow> string" where
  "fmt_d w n = replicate (w - length (str_nat n)) (CHR ''0'') @ str_nat n"

text \<open>Reading a field of decimal digits (what \<open>fromisoformat\<close> does with each component).\<close>

definition parse_int :: "string \<Rightarrow> nat option" where
  "parse_int s =
     (if s \<noteq> [] \<and> list_all is_digit s
      then Some (foldl (\<lambda>a c. 10 * a + digit_val c) 0 s) else None)"

subsection \<open>\<open>datetime\<close>\<close>

text \<open>
  A \<open>datetime.datetime\<close>: the calendar fields and \<open>tzinfo\<close>. An aware value carries its
  \<open>utcoffset()\<close> in microseconds; \<open>None\<close> is a naive value. The library only builds values
  within the ranges of \<open>valid_datetime\<close> (its constructors raise otherwise). The \<open>fold\<close>
  attribute and \<open>tzinfo\<close> objects without a fixed offset are not modelled.
\<close>

record datetime =
  year :: nat
  month :: nat
  day :: nat
  hour :: nat
  minute :: nat
  second :: nat
  microsecond :: nat
  tzinfo :: "int option"

definition is_leap :: "nat \<Rightarrow> bool" where
  "is_leap y = (y mod 4 = 0 \<and> (y mod 100 \<noteq> 0 \<or> y mod 400 = 0))"

definition days_in_month :: "nat \<Rightarrow> nat \<Rightarrow> nat" where
  "days_in_month y m =
     (if m = 2 then (if is_leap y then 29 else 28)
      else if m \<in> {4, 6, 9, 11} then 30 else 31)"

definition valid_offset :: "int \<Rightarrow> bool" where
  "valid_offset off = (- 86400000000 < off \<and> off < 86400000000)"

definition valid_datetime :: "datetime \<Rightarrow> bool" where
  "valid_datetime d =
     (1 \<le> year d \<and> year d \<le> 9999 \<and> 1 \<le> month d \<and> month d \<le> 12 \<and>
      1 \<le> day d \<and> day d \<le> days_in_month (year d) (month d) \<and>
      hour d \<le> 23 \<and> minute d \<le> 59 \<and> second d \<le> 59 \<and> microsecond d \<le> 999999 \<and>
      (case tzinfo d of None \<Rightarrow> True | Some off \<Rightarrow> valid_offset off))"

definition aware :: "datetime \<Rightarrow> bool" where
  "aware d = (tzinfo d \<noteq> None)"

text \<open>\<open>datetime.isoformat()\<close>: \<open>YYYY-MM-DDTHH:MM:SS[.ffffff][+HH:MM[:SS[.ffffff]]]\<close>.\<close>

definition format_time :: "nat \<Rightarrow> nat \<Rightarrow> nat \<Rightarrow> nat \<Rightarrow> string" where
  "format_time hh mm ss us =
     fmt_d 2 hh @ '':'' @ fmt_d 2 mm @ '':'' @ fmt_d 2 ss @
     (if us \<noteq> 0 then ''.'' @ fmt_d 6 us else [])"

definition offset_body :: "nat \<Rightarrow> string" where
  "offset_body a =
     (let hh = a div 3600000000;
          mm = a mod 3600000000 div 60000000;
          ss = a mod 60000000 div 1000000;
          us = a mod 1000000
      in fmt_d 2 hh @ '':'' @ fmt_d 2 mm @
         (if ss \<noteq> 0 \<or> us \<noteq> 0
          then '':'' @ fmt_d 2 ss @ (if us \<noteq> 0 then ''.'' @ fmt_d 6 us else [])
          else []))"

definition format_offset :: "int option \<Rightarrow> string" where
  "format_offset off =
     (case off of
        None \<Rightarrow> []
      | Some v \<Rightarrow> (if v < 0 then CHR ''-'' else CHR ''+'') # offset_body (nat \<bar>v\<bar>))"

definition isoformat :: "datetime \<Rightarrow> string" where
  "isoformat d =
     fmt_d 4 (year d) @ ''-'' @ fmt_d 2 (month d) @ ''-'' @ fmt_d 2 (day d) @ ''T'' @
     format_time (hour d) (minute d) (second d) (microsecond d) @ format_offset (tzinfo d)"

text \<open>
  \<open>datetime.fromisoformat\<close>, on the grammar the library documents as the inverse of
  \<open>isoformat\<close>: \<open>YYYY-MM-DD[*HH[:MM[:SS[.fff[fff]]]][+HH:MM[:SS[.ffffff]]]]\<close>, where
  \<open>*\<close> is any one character. Every other string is refused here (later versions of the
  library read further ISO 8601 forms). The components are then checked as the
  constructors of \<open>datetime\<close> and \<open>timezone\<close> check them.
\<close>

definition parse_isoformat_date :: "string \<Rightarrow> (nat \<times> nat \<times> nat) option" where
  "parse_isoformat_date s =
     (if length s \<noteq> 10 \<or> s ! 4 \<noteq> CHR ''-'' \<or> s ! 7 \<noteq> CHR ''-'' then None
      else do {
        y \<leftarrow> parse_int (take 4 s);
        m \<leftarrow> parse_int (take 2 (drop 5 s));
        d \<leftarrow> parse_int (take 2 (drop 8 s));
        Some (y, m, d)
      })"

definition parse_fraction :: "string \<Rightarrow> nat option" where
  "parse_fraction r =
     (if r = [] then Some 0
      else if hd r \<noteq> CHR ''.'' then None
      else if length (tl r) = 6 then parse_int (tl r)
      else if length (tl r) = 3 then map_option (\<lambda>v. v * 1000) (parse_int (tl r))
      else None)"

definition parse_hh_mm_ss_ff :: "string \<Rightarrow> (nat \<times> nat \<times> nat \<times> nat) option" where
  "parse_hh_mm_ss_ff s =
     (if length s < 2 then None
      else do {
        hh \<leftarrow> parse_int (take 2 s);
        if length s = 2 then Some (hh, 0, 0, 0)
        else if s ! 2 \<noteq> CHR '':'' \<or> length s < 5 then None
        else do {
          mm \<leftarrow> parse_int (take 2 (drop 3 s));
          if length s = 5 then Some (hh, mm, 0, 0)
          else if s ! 5 \<noteq> CHR '':'' \<or> length s < 8 then None
          else do {
            ss \<leftarrow> parse_int (take 2 (drop 6 s));
            us \<leftarrow> parse_fraction (drop 8 s);
            Some (hh, mm, ss, us)
          }
        }
      })"

text \<open>
  The offset starts at the first \<open>-\<close> of the time part or, when there is none, at its
  first \<open>+\<close>; an offset whose components are all zero is \<open>timezone.utc\<close>.
\<close>

definition parse_tz :: "char \<Rightarrow> string \<Rightarrow> int option" where
  "parse_tz sign tzstr =
     (if length tzstr \<notin> {5, 8, 15} then None
      else do {
        (hh, mm, ss, us) \<leftarrow> parse_hh_mm_ss_ff tzstr;
        let v = int (hh * 3600000000 + mm * 60000000 + ss * 1000000 + us);
        Some (if sign = CHR ''-'' then - v else v)
      })"

definition parse_isoformat_time ::
    "string \<Rightarrow> ((nat \<times> nat \<times> nat \<times> nat) \<times> int option) option" where
  "parse_isoformat_time tstr =
     (if length tstr < 2 then None
      else if CHR ''-'' \<in> set tstr \<or> CHR ''+'' \<in> set tstr then
        (let sign = (if CHR ''-'' \<in> set tstr then CHR ''-'' else CHR ''+'') in
         do {
           comps \<leftarrow> parse_hh_mm_ss_ff (takeWhile (\<lambda>c. c \<noteq> sign) tstr);
           off \<leftarrow> parse_tz sign (tl (dropWhile (\<lambda>c. c \<noteq> sign) tstr));
           Some (comps, Some off)
         })
      else do {
        comps \<leftarrow> parse_hh_mm_ss_ff tstr;
        Some (comps, None)
      })"

definition fromisoformat :: "string \<Rightarrow> error + datetime" where
  "fromisoformat s =
     (case parse_isoformat_date (take 10 s) of
        None \<Rightarrow> Inl ValueError_isoformat
      | Some (y, m, d) \<Rightarrow>
          (case (if length s = 10 then Some ((0, 0, 0, 0), None)
                 else parse_isoformat_time (drop 11 s)) of
             None \<Rightarrow> Inl ValueError_isoformat
           | Some ((hh, mm, ss, us), off) \<Rightarrow>
               (let dt = \<lparr>year = y, month = m, day = d, hour = hh, minute = mm, second = ss,
                          microsecond = us, tzinfo = off\<rparr>
                in if valid_datetime dt then Inr dt else Inl ValueError_isoformat)))"

text \<open>
  The instant an aware value denotes, in microseconds since the start of year 1 (UTC);
  for a naive value, its local fields. Python orders two aware values by their instants
  and two naive values by their fields; ordering a naive against an aware one raises.
\<close>

definition days_before_year :: "nat \<Rightarrow> nat" where
  "days_before_year y = (y - 1) * 365 + (y - 1) div 4 - (y - 1) div 100 + (y - 1) div 400"

definition days_before_month :: "nat \<Rightarrow> nat \<Rightarrow> nat" where
  "days_before_month y m = sum_list (map (days_in_month y) [1..<m])"

definition toordinal :: "datetime \<Rightarrow> nat" where
  "toordinal d = days_before_year (year d) + days_before_month (year d) (month d) + day d"

definition instant :: "datetime \<Rightarrow> int" where
  "instant d =
     int ((((toordinal d * 24 + hour d) * 60 + minute d) * 60 + second d) * 1000000
          + microsecond d)
     - (case tzinfo d of None \<Rightarrow> 0 | Some off \<Rightarrow> off)"

section \<open>models.py\<close>

definition ensure_tz :: "datetime \<Rightarrow> error + datetime" where
  "ensure_tz v = (if tzinfo v = None then Inl ValueError_naive else Inr v)"

text \<open>\<open>value.endswith("Z")\<close> and \<open>value.replace("Z", "+00:00")\<close>.\<close>

definition endswith_Z :: "string \<Rightarrow> bool" where
  "endswith_Z s = (s \<noteq> [] \<and> last s = CHR ''Z'')"



record todo_item =
  message_id :: string
  subject :: string
  sender :: string
  received_at :: datetime
  scheduled_for :: datetime
  body_preview :: string
  web_link :: "string option"
  completed :: bool
  created_at :: datetime

text \<open>
  The constructor of the dataclass followed by \<open>__post_init__\<close>. Every argument is
  explicit: a caller that leaves out \<open>body_preview\<close>, \<open>web_link\<close>, \<open>completed\<close> or
  \<open>created_at\<close> passes the default (\<open>""\<close>, \<open>None\<close>, \<open>False\<close>, the clock reading
  \<open>datetime.now(timezone.utc)\<close>).
\<close>

definition TodoItem ::
    "string \<Rightarrow> string \<Rightarrow> string \<Rightarrow> datetime \<Rightarrow> datetime \<Rightarrow> string \<Rightarrow> string option \<Rightarrow> bool
       \<Rightarrow> datetime \<Rightarrow> error + todo_item" where
  "TodoItem mid subj sndr recv sched body link compl created =
     (case ensure_tz recv of
        Inl e \<Rightarrow> Inl e
      | Inr recv' \<Rightarrow>
          (case ensure_tz sched of
             Inl e \<Rightarrow> Inl e
           | Inr sched' \<Rightarrow>
               Inr \<lparr>message_id = mid, subject = subj, sender = sndr, received_at = recv',
                    scheduled_for = sched', body_preview = body, web_link = link,
                    completed = compl,
                    created_at = (if tzinfo created = None then created\<lparr>tzinfo := Some 0\<rparr>
                                  else created)\<rparr>))"

text \<open>
  The JSON object of one persisted item, with the types \<open>to_dict\<close> writes. \<open>None\<close> is an
  absent key (for \<open>web_link\<close>, which is read with \<open>payload.get("web_link")\<close>, also
  \<open>null\<close>).
\<close>

record item_dict =
  d_message_id :: "string option"
  d_subject :: "string option"
  d_sender :: "string option"
  d_received_at :: "string option"
  d_scheduled_for :: "string option"
  d_body_preview :: "string option"
  d_web_link :: "string option"
  d_completed :: "bool option"
  d_created_at :: "string option"

definition to_dict :: "todo_item \<Rightarrow> item_dict" where
  "to_dict item =
     \<lparr>d_message_id = Some (message_id item), d_subject = Some (subject item),
      d_sender = Some (sender item), d_received_at = Some (isoformat (received_at item)),
      d_scheduled_for = Some (isoformat (scheduled_for item)),
      d_body_preview = Some (body_preview item), d_web_link = web_link item,
      d_completed = Some (completed item),
      d_created_at = Some (isoformat (created_at item))\<rparr>"

text \<open>\<open>d[k]\<close>: the value under \<open>k\<close>, or \<open>KeyError\<close>.\<close>

definition subscript :: "string \<Rightarrow> 'a option \<Rightarrow> error + 'a" where
  "subscript k v = (case v of None \<Rightarrow> Inl (KeyError_subscript k) | Some x \<Rightarrow> Inr x)"



section \<open>storage.py\<close>

text \<open>
  The state one process run works on: \<open>TodoStorage._items\<close>, a dict in insertion order
  (an association list: assigning to a key it holds replaces the value in place, a new
  key goes to the end); the JSON document at \<open>TodoStorage.path\<close> (\<open>None\<close> when there is
  no file); and the log of the calls that leave the process, in the order they are made.
  Failures of the file system are not modelled. Items are values: the one alias the
  sources write through, \<open>item.completed = True\<close> on the object \<open>storage.get\<close> returned,
  is written out in \<open>mark_done\<close>.
\<close>

datatype event =
    Fetch int                   \<comment> \<open>\<open>graph_client.fetch_unread_emails(limit)\<close>\<close>
  | MarkRead string             \<comment> \<open>\<open>graph_client.mark_email_as_read(message_id)\<close>\<close>
  | Save "item_dict list"       \<comment> \<open>\<open>storage.save()\<close>, with the document written\<close>

record app_state =
  items :: "(string \<times> todo_item) list"
  document :: "item_dict list option"
  calls :: "event list"

definition TodoStorage_contains :: "app_state \<Rightarrow> string \<Rightarrow> bool" where
  "TodoStorage_contains st mid = (map_of (items st) mid \<noteq> None)"

definition TodoStorage_save :: "app_state \<Rightarrow> app_state" where
  "TodoStorage_save st =
     (let serialised = map (\<lambda>(k, item). to_dict item) (items st)
      in st\<lparr>document := Some serialised, calls := calls st @ [Save serialised]\<rparr>)"

definition TodoStorage_add :: "todo_item \<Rightarrow> bool \<Rightarrow> app_state \<Rightarrow> error + app_state" where
  "TodoStorage_add item overwrite st =
     (if \<not> overwrite \<and> TodoStorage_contains st (message_id item)
      then Inl (KeyError_exists (message_id item))
      else Inr (st\<lparr>items := AList.update (message_id item) item (items st)\<rparr>))"

definition TodoStorage_get :: "app_state \<Rightarrow> string \<Rightarrow> todo_item option" where
  "TodoStorage_get st mid = map_of (items st) mid"

definition TodoStorage_update :: "todo_item \<Rightarrow> app_state \<Rightarrow> error + app_state" where
  "TodoStorage_update item st =
     (if \<not> TodoStorage_contains st (message_id item)
      then Inl (KeyError_update (message_id item))
      else Inr (st\<lparr>items := AList.update (message_id item) item (items st)\<rparr>))"

definition TodoStorage_remove :: "string \<Rightarrow> app_state \<Rightarrow> app_state" where
  "TodoStorage_remove mid st =
     (if TodoStorage_contains st mid then st\<lparr>items := AList.delete mid (items st)\<rparr> else st)"

text \<open>
  \<open>sorted(self._items.values(), key=lambda item: item.scheduled_for)\<close>: a stable sort on
  the instants. With a naive and an aware key among the values the comparison raises.
\<close>

definition TodoStorage_all :: "app_state \<Rightarrow> error + todo_item list" where
  "TodoStorage_all st =
     (let vs = map snd (items st) in
      if \<exists>a \<in> set vs. \<exists>b \<in> set vs. aware (scheduled_for a) \<noteq> aware (scheduled_for b)
      then Inl TypeError_compare
      else Inr (sort_key (\<lambda>item. instant (scheduled_for item)) vs))"

definition aware_store :: "app_state \<Rightarrow> bool" where
  "aware_store st = (\<forall>item \<in> set (map snd (items st)). aware (scheduled_for item))"

section \<open>graph.py\<close>

text \<open>
  A message of the Graph API, with the keys the program reads; \<open>None\<close> is an absent key
  (or \<open>null\<close>, for the keys read with \<open>message.get(k) or default\<close>).
\<close>

record email_address =
  ea_name :: "string option"
  ea_address :: "string option"

record from_data =
  emailAddress :: "email_address option"

record message =
  msg_id :: "string option"
  msg_subject :: "string option"
  msg_from :: "from_data option"
  msg_receivedDateTime :: "string option"
  msg_bodyPreview :: "string option"
  msg_webLink :: "string option"

text \<open>
  The gateway: what \<open>fetch_unread_emails(limit)\<close> returns or raises, and whether
  \<open>mark_email_as_read(message_id)\<close> raises. \<open>GraphClient\<close> answers from the network;
  \<open>InMemoryGraphClient\<close> answers from a list (the \<open>isRead\<close> key it sets on a message is
  read nowhere).
\<close>

record gateway =
  fetch_unread_emails :: "int \<Rightarrow> error + message list"
  mark_email_as_read :: "string \<Rightarrow> error option"

text \<open>\<open>xs[:n]\<close>.\<close>

definition slice_to :: "int \<Rightarrow> 'a list \<Rightarrow> 'a list" where
  "slice_to n xs = (if 0 \<le> n then take (nat n) xs else take (length xs - nat (- n)) xs)"

definition InMemoryGraphClient :: "message list \<Rightarrow> gateway" where
  "InMemoryGraphClient messages =
     \<lparr>fetch_unread_emails = (\<lambda>limit. Inr (slice_to limit messages)),
      mark_email_as_read = (\<lambda>mid. None)\<rparr>"

definition parse_graph_datetime :: "string \<Rightarrow> error + datetime" where
  "parse_graph_datetime v =
     (case fromisoformat (if endswith_Z v then butlast v @ ''+00:00'' else v) of
        Inl e \<Rightarrow> Inl e
      | Inr dt \<Rightarrow> Inr (if tzinfo dt = None then dt\<lparr>tzinfo := Some 0\<rparr> else dt))"

text \<open>\<open>v or d\<close> for a \<open>v\<close> that is a string or \<open>None\<close>.\<close>

definition or_str :: "string option \<Rightarrow> string \<Rightarrow> string" where
  "or_str v d = (case v of None \<Rightarrow> d | Some s \<Rightarrow> if s = [] then d else s)"

definition extract_sender :: "message \<Rightarrow> string" where
  "extract_sender m =
     (let from_data = (case msg_from m of None \<Rightarrow> \<lparr>emailAddress = None\<rparr> | Some f \<Rightarrow> f);
          email_address = (case emailAddress from_data of
                             None \<Rightarrow> \<lparr>ea_name = None, ea_address = None\<rparr>
                           | Some a \<Rightarrow> a)
      in or_str (ea_name email_address) (or_str (ea_address email_address) ''Unknown sender''))"

record payload =
  p_message_id :: string
  p_subject :: string
  p_sender :: string
  p_received_at :: datetime
  p_scheduled_for :: datetime
  p_body_preview :: string
  p_web_link :: "string option"

definition to_todo_payload :: "message \<Rightarrow> datetime option \<Rightarrow> error + payload" where
  "to_todo_payload m default_schedule =
     (case subscript ''receivedDateTime'' (msg_receivedDateTime m) of Inl e \<Rightarrow> Inl e | Inr rs \<Rightarrow>
      case parse_graph_datetime rs of Inl e \<Rightarrow> Inl e | Inr received \<Rightarrow>
      case subscript ''id'' (msg_id m) of Inl e \<Rightarrow> Inl e | Inr mid \<Rightarrow>
        Inr \<lparr>p_message_id = mid,
             p_subject = or_str (msg_subject m) ''(no subject)'',
             p_sender = extract_sender m,
             p_received_at = received,
             p_scheduled_for = (case default_schedule of None \<Rightarrow> received | Some s \<Rightarrow> s),
             p_body_preview = (case msg_bodyPreview m of None \<Rightarrow> [] | Some b \<Rightarrow> b),
             p_web_link = msg_webLink m\<rparr>)"

section \<open>todo\_app.py\<close>

text \<open>\<open>TodoItem(**payload)\<close>, with the clock reading for \<open>created_at\<close>.\<close>

definition TodoItem_of_payload :: "datetime \<Rightarrow> payload \<Rightarrow> error + todo_item" where
  "TodoItem_of_payload now p =
     TodoItem (p_message_id p) (p_subject p) (p_sender p) (p_received_at p) (p_scheduled_for p)
       (p_body_preview p) (p_web_link p) False now"

text \<open>
  The loop of \<open>sync_unread_emails\<close> over the fetched messages. \<open>clock k\<close> is the clock
  reading at the construction of the \<open>k\<close>-th new item of this call. An exception leaves
  the items inserted so far in the store.
\<close>

fun sync_loop ::
    "(nat \<Rightarrow> datetime) \<Rightarrow> datetime option \<Rightarrow> message list \<Rightarrow> todo_item list \<Rightarrow> app_state
       \<Rightarrow> (error + todo_item list) \<times> app_state" where
  "sync_loop clock schedule_for [] new_items st = (Inr new_items, st)"
| "sync_loop clock schedule_for (m # ms) new_items st =
     (case subscript ''id'' (msg_id m) of
        Inl e \<Rightarrow> (Inl e, st)
      | Inr mid \<Rightarrow>
          if TodoStorage_contains st mid then sync_loop clock schedule_for ms new_items st
          else
            (case to_todo_payload m schedule_for of
               Inl e \<Rightarrow> (Inl e, st)
             | Inr p \<Rightarrow>
                 (case TodoItem_of_payload (clock (length new_items)) p of
                    Inl e \<Rightarrow> (Inl e, st)
                  | Inr todo \<Rightarrow>
                      (case TodoStorage_add todo True st of
                         Inl e \<Rightarrow> (Inl e, st)
                       | Inr st' \<Rightarrow> sync_loop clock schedule_for ms (new_items @ [todo]) st'))))"

definition sync_unread_emails ::
    "gateway \<Rightarrow> (nat \<Rightarrow> datetime) \<Rightarrow> int \<Rightarrow> datetime option \<Rightarrow> app_state
       \<Rightarrow> (error + todo_item list) \<times> app_state" where
  "sync_unread_emails gw clock limit schedule_for st =
     (let st0 = st\<lparr>calls := calls st @ [Fetch limit]\<rparr> in
      case fetch_unread_emails gw limit of
        Inl e \<Rightarrow> (Inl e, st0)
      | Inr messages \<Rightarrow>
          (case sync_loop clock schedule_for messages [] st0 of
             (Inl e, st1) \<Rightarrow> (Inl e, st1)
           | (Inr new_items, st1) \<Rightarrow>
               (Inr new_items, if new_items \<noteq> [] then TodoStorage_save st1 else st1)))"

definition mark_done :: "gateway \<Rightarrow> string \<Rightarrow> app_state \<Rightarrow> (error + todo_item) \<times> app_state" where
  "mark_done gw mid st =
     (case TodoStorage_get st mid of
        None \<Rightarrow> (Inl (KeyError_no_todo mid), st)
      | Some item \<Rightarrow>
          if completed item then (Inr item, st)
          else
            (let st1 = st\<lparr>calls := calls st @ [MarkRead mid]\<rparr> in
             case mark_email_as_read gw mid of
               Some e \<Rightarrow> (Inl e, st1)
             | None \<Rightarrow>
                 (let item' = item\<lparr>completed := True\<rparr>;
                      st2 = st1\<lparr>items := AList.update mid item' (items st1)\<rparr>
                  in case TodoStorage_update item' st2 of
                       Inl e \<Rightarrow> (Inl e, st2)
                     | Inr st3 \<Rightarrow> (Inr item', TodoStorage_save st3))))"










definition add_manual_item ::
    "datetime \<Rightarrow> string \<Rightarrow> string \<Rightarrow> datetime \<Rightarrow> string \<Rightarrow> string option \<Rightarrow> app_state
       \<Rightarrow> (error + todo_item) \<times> app_state" where
  "add_manual_item now subj sndr sched body link st =
     (case TodoStorage_all st of
        Inl e \<Rightarrow> (Inl e, st)
      | Inr all_items \<Rightarrow>
          (let mid = ''manual-'' @ str_nat (length all_items + 1) in
           case TodoItem mid subj sndr sched sched body link False now of
             Inl e \<Rightarrow> (Inl e, st)
           | Inr todo \<Rightarrow>
               (case TodoStorage_add todo True st of
                  Inl e \<Rightarrow> (Inl e, st)
                | Inr st1 \<Rightarrow> (Inr todo, TodoStorage_save st1))))"

section \<open>The file name of the specification\<close>








section \<open>Values of the test suite\<close>

text \<open>\<open>NOW\<close> and the message of \<open>DummyGraph\<close> in tests/test\_todo\_app.py.\<close>

definition NOW :: datetime where
  "NOW = \<lparr>year = 2023, month = 1, day = 1, hour = 9, minute = 0, second = 0, microsecond = 0,
          tzinfo = Some 0\<rparr>"

definition dummy_message :: message where
  "dummy_message =
     \<lparr>msg_id = Some ''1'', msg_subject = Some ''Subject 1'',
      msg_from = Some \<lparr>emailAddress = Some \<lparr>ea_name = Some ''Alice'', ea_address = None\<rparr>\<rparr>,
      msg_receivedDateTime = Some ''2023-01-01T09:00:00+00:00'',
      msg_bodyPreview = Some ''Hello'', msg_webLink = Some ''https://outlook.example/1''\<rparr>"

text \<open>
  The item \<open>make_item(identifier)\<close> of tests/test\_storage.py builds (with \<open>NOW\<close> for
  its timestamps), a store on a path with no file, the \<open>DummyGraph\<close> of
  tests/test\_todo\_app.py, and a gateway stand-in that raises whenever it is called.
\<close>

definition make_item :: "string \<Rightarrow> todo_item" where
  "make_item identifier =
     \<lparr>message_id = identifier, subject = ''Subject'', sender = ''sender@example.com'',
      received_at = NOW, scheduled_for = NOW, body_preview = [], web_link = None,
      completed = False, created_at = NOW\<rparr>"

definition empty_store :: app_state where
  "empty_store = \<lparr>items = [], document = None, calls = []\<rparr>"

definition DummyGraph :: gateway where
  "DummyGraph = InMemoryGraphClient [dummy_message]"

definition raising_gateway :: gateway where
  "raising_gateway =
     \<lparr>fetch_unread_emails = (\<lambda>limit. Inl (GraphApiError 503 ''unavailable'')),
      mark_email_as_read = (\<lambda>mid. Some (GraphApiError 503 ''unavailable''))\<rparr>"

text \<open>The item \<open>sync_unread_emails\<close> builds from \<open>dummy_message\<close> at the clock reading \<open>NOW\<close>.\<close>

definition dummy_item :: todo_item where
  "dummy_item =
     \<lparr>message_id = ''1'', subject = ''Subject 1'', sender = ''Alice'', received_at = NOW,
      scheduled_for = NOW, body_preview = ''Hello'',
      web_link = Some ''https://outlook.example/1'', completed = False, created_at = NOW\<rparr>"

text \<open>The state after \<open>sync_unread_emails(limit=25)\<close> with \<open>DummyGraph\<close> on the empty store.\<close>

definition dummy_synced :: app_state where
  "dummy_synced =
     \<lparr>items = [(''1'', dummy_item)], document = Some [to_dict dummy_item],
      calls = [Fetch 25, Save [to_dict dummy_item]]\<rparr>"

text \<open>
  A store one process run reaches from the empty one: two manual items are added, then
  the first is removed.
\<close>

definition manual_state :: app_state where
  "manual_state =
     TodoStorage_remove ''manual-1''
       (snd (add_manual_item NOW ''b'' ''me'' NOW [] None
          (snd (add_manual_item NOW ''a'' ''me'' NOW [] None empty_store))))"




section \<open>Decimal fields and ISO 8601 text: reading back what was written\<close>

lemma digit_val_digit_char: "n < 10 \<Longrightarrow> digit_val (digit_char n) = n"
  by (simp add: digit_val_def digit_char_def)

lemma is_digit_digit_char: "n < 10 \<Longrightarrow> is_digit (digit_char n)"
  by (simp add: is_digit_def digit_char_def)

lemma is_digit_zero: "is_digit (CHR ''0'')"
  by (simp add: is_digit_def)

lemma digits_str_nat: "list_all is_digit (str_nat n)"
  by (induction n rule: str_nat.induct) (subst str_nat.simps, simp add: is_digit_digit_char)

lemma str_nat_nonempty: "str_nat n \<noteq> []"
  by (subst str_nat.simps) simp

lemma foldl_str_nat: "foldl (\<lambda>a c. 10 * a + digit_val c) 0 (str_nat n) = n"
  by (induction n rule: str_nat.induct) (subst str_nat.simps, simp add: digit_val_digit_char)

lemma foldl_zeros: "foldl (\<lambda>a c. 10 * a + digit_val c) 0 (replicate k (CHR ''0'')) = 0"
  by (induction k) (simp_all add: digit_val_def)

lemma digits_fmt_d: "list_all is_digit (fmt_d w n)"
  using digits_str_nat[of n] by (auto simp: fmt_d_def list_all_iff is_digit_zero)

lemma parse_int_fmt_d: "parse_int (fmt_d w n) = Some n"
  using digits_fmt_d[of w n]
  by (simp add: parse_int_def fmt_d_def str_nat_nonempty foldl_zeros foldl_str_nat)

lemma length_str_nat: "0 < w \<Longrightarrow> n < 10 ^ w \<Longrightarrow> length (str_nat n) \<le> w"
proof (induction n arbitrary: w rule: str_nat.induct)
  case (1 n)
  show ?case
  proof (cases "n < 10")
    case True
    then show ?thesis using "1.prems" by (subst str_nat.simps) simp
  next
    case False
    then obtain v where w: "w = Suc v" and v: "0 < v"
      using "1.prems" by (cases w; cases "w - 1") auto
    have "n div 10 < 10 ^ v"
      using "1.prems" w by (simp add: less_mult_imp_div_less mult.commute)
    then have "length (str_nat (n div 10)) \<le> v"
      using "1.IH" False v by simp
    then show ?thesis using False w by (subst str_nat.simps) simp
  qed
qed

lemma length_fmt_d: "0 < w \<Longrightarrow> n < 10 ^ w \<Longrightarrow> length (fmt_d w n) = w"
  using length_str_nat[of w n] by (simp add: fmt_d_def)

lemma length_fmt2: "n \<le> 99 \<Longrightarrow> length (fmt_d 2 n) = 2"
  by (rule length_fmt_d) simp_all

lemma length_fmt4: "n \<le> 9999 \<Longrightarrow> length (fmt_d 4 n) = 4"
  by (rule length_fmt_d) simp_all

lemma length_fmt6: "n \<le> 999999 \<Longrightarrow> length (fmt_d 6 n) = 6"
  by (rule length_fmt_d) simp_all

lemma fmt_d_no_sign: "c \<in> set (fmt_d w n) \<Longrightarrow> c \<noteq> CHR ''-'' \<and> c \<noteq> CHR ''+''"
  using digits_fmt_d[of w n] by (auto simp: list_all_iff is_digit_def)

lemma fmt_d_no_Z: "CHR ''Z'' \<notin> set (fmt_d w n)"
  using digits_fmt_d[of w n] by (auto simp: list_all_iff is_digit_def)

lemma parse_fraction_fmt:
  "us \<le> 999999 \<Longrightarrow> parse_fraction (if us \<noteq> 0 then ''.'' @ fmt_d 6 us else []) = Some us"
  by (simp add: parse_fraction_def length_fmt6 parse_int_fmt_d)

lemma parse_format_time:
  assumes "hh \<le> 99" "mm \<le> 99" "ss \<le> 99" "us \<le> 999999"
  shows "parse_hh_mm_ss_ff (format_time hh mm ss us) = Some (hh, mm, ss, us)"
  using assms
  by (simp add: parse_hh_mm_ss_ff_def format_time_def length_fmt2 length_fmt6 parse_int_fmt_d
      parse_fraction_fmt nth_append parse_fraction_def)

lemma parse_hh_mm:
  assumes "hh \<le> 99" "mm \<le> 99"
  shows "parse_hh_mm_ss_ff (fmt_d 2 hh @ '':'' @ fmt_d 2 mm) = Some (hh, mm, 0, 0)"
  using assms
  by (simp add: parse_hh_mm_ss_ff_def length_fmt2 parse_int_fmt_d nth_append)

lemma format_time_no_sign:
  "c \<in> set (format_time hh mm ss us) \<Longrightarrow> c \<noteq> CHR ''-'' \<and> c \<noteq> CHR ''+''"
  by (auto simp: format_time_def dest: fmt_d_no_sign split: if_splits)

lemma offset_split:
  fixes a :: nat
  shows "a div 3600000000 * 3600000000 + a mod 3600000000 div 60000000 * 60000000
          + a mod 60000000 div 1000000 * 1000000 + a mod 1000000 = a"
proof -
  have 1: "a mod 60000000 mod 1000000 = a mod 1000000"
    by (rule mod_mod_cancel) simp
  have 2: "a mod 3600000000 mod 60000000 = a mod 60000000"
    by (rule mod_mod_cancel) simp
  have "a mod 60000000 div 1000000 * 1000000 + a mod 1000000 = a mod 60000000"
    using div_mult_mod_eq[of "a mod 60000000" 1000000] 1 by simp
  moreover have "a mod 3600000000 div 60000000 * 60000000 + a mod 60000000 = a mod 3600000000"
    using div_mult_mod_eq[of "a mod 3600000000" 60000000] 2 by simp
  moreover have "a div 3600000000 * 3600000000 + a mod 3600000000 = a"
    by simp
  ultimately show ?thesis by linarith
qed

lemma offset_bounds:
  fixes a :: nat
  assumes "a < 86400000000"
  shows "a div 3600000000 < 24" "a mod 3600000000 div 60000000 < 60"
    "a mod 60000000 div 1000000 < 60" "a mod 1000000 < 1000000"
proof -
  show "a div 3600000000 < 24"
    by (rule less_mult_imp_div_less) (use assms in simp)
  have "a mod 3600000000 < 60 * 60000000" by simp
  then show "a mod 3600000000 div 60000000 < 60"
    by (rule less_mult_imp_div_less)
  have "a mod 60000000 < 60 * 1000000" by simp
  then show "a mod 60000000 div 1000000 < 60"
    by (rule less_mult_imp_div_less)
  show "a mod 1000000 < 1000000" by simp
qed

lemma offset_body_no_sign: "c \<in> set (offset_body a) \<Longrightarrow> c \<noteq> CHR ''-'' \<and> c \<noteq> CHR ''+''"
  by (auto simp: offset_body_def Let_def dest: fmt_d_no_sign split: if_splits)

lemma parse_offset_body:
  assumes "a < 86400000000"
  shows "length (offset_body a) \<in> {5, 8, 15}"
    and "parse_hh_mm_ss_ff (offset_body a) =
      Some (a div 3600000000, a mod 3600000000 div 60000000, a mod 60000000 div 1000000,
            a mod 1000000)"
proof -
  let ?hh = "a div 3600000000" and ?mm = "a mod 3600000000 div 60000000"
  let ?ss = "a mod 60000000 div 1000000" and ?us = "a mod 1000000"
  have b: "?hh \<le> 99" "?mm \<le> 99" "?ss \<le> 99" "?us \<le> 999999"
    using offset_bounds[OF assms] by simp_all
  show "length (offset_body a) \<in> {5, 8, 15}"
    using b by (simp add: offset_body_def Let_def length_fmt2 length_fmt6)
  show "parse_hh_mm_ss_ff (offset_body a) = Some (?hh, ?mm, ?ss, ?us)"
  proof (cases "?ss \<noteq> 0 \<or> ?us \<noteq> 0")
    case True
    then have "offset_body a = format_time ?hh ?mm ?ss ?us"
      by (simp add: offset_body_def Let_def format_time_def)
    then show ?thesis using parse_format_time[OF b] by simp
  next
    case False
    then have "offset_body a = fmt_d 2 ?hh @ '':'' @ fmt_d 2 ?mm"
      by (simp add: offset_body_def Let_def)
    then show ?thesis using parse_hh_mm[OF b(1,2)] False by simp
  qed
qed

lemma parse_tz_offset_body:
  assumes "valid_offset v"
  shows "parse_tz (if v < 0 then CHR ''-'' else CHR ''+'') (offset_body (nat \<bar>v\<bar>)) = Some v"
proof -
  let ?a = "nat \<bar>v\<bar>"
  let ?n = "?a div 3600000000 * 3600000000 + ?a mod 3600000000 div 60000000 * 60000000
          + ?a mod 60000000 div 1000000 * 1000000 + ?a mod 1000000"
  have a: "?a < 86400000000" using assms unfolding valid_offset_def by linarith
  have n: "?n = ?a" by (rule offset_split)
  have "(if v < 0 then - int ?a else int ?a) = v" by simp
  then have "(if v < 0 then - int ?n else int ?n) = v" by (simp only: n)
  moreover have "parse_tz (if v < 0 then CHR ''-'' else CHR ''+'') (offset_body ?a)
      = Some (if v < 0 then - int ?n else int ?n)"
    using parse_offset_body[OF a] by (simp add: parse_tz_def del: of_nat_add of_nat_mult)
  ultimately show ?thesis by (simp only:)
qed

lemma split_at_sign:
  assumes "\<forall>c\<in>set t. c \<noteq> CHR ''-'' \<and> c \<noteq> CHR ''+''"
    and "\<forall>c\<in>set b. c \<noteq> CHR ''-'' \<and> c \<noteq> CHR ''+''"
    and "sg = CHR ''-'' \<or> sg = CHR ''+''"
    and "2 \<le> length t"
  shows "parse_isoformat_time (t @ sg # b) =
    do { comps \<leftarrow> parse_hh_mm_ss_ff t; off \<leftarrow> parse_tz sg b; Some (comps, Some off) }"
proof -
  have sg: "(if CHR ''-'' \<in> set (t @ sg # b) then CHR ''-'' else CHR ''+'') = sg"
    using assms(1-3) by auto
  have tw: "takeWhile (\<lambda>c. c \<noteq> sg) (t @ sg # b) = t"
    using assms(1,3) by (subst takeWhile_tail) auto
  have dw: "dropWhile (\<lambda>c. c \<noteq> sg) (t @ sg # b) = sg # b"
    using assms(1,3) by (subst dropWhile_append3) auto
  have "CHR ''-'' \<in> set (t @ sg # b) \<or> CHR ''+'' \<in> set (t @ sg # b)"
    using assms(3) by auto
  then show ?thesis
    by (simp only: parse_isoformat_time_def sg tw dw Let_def) (use assms(4) in auto)
qed

lemma parse_isoformat_time_format:
  assumes "hh \<le> 99" "mm \<le> 99" "ss \<le> 99" "us \<le> 999999"
    and "case off of None \<Rightarrow> True | Some v \<Rightarrow> valid_offset v"
  shows "parse_isoformat_time (format_time hh mm ss us @ format_offset off)
    = Some ((hh, mm, ss, us), off)"
proof -
  let ?t = "format_time hh mm ss us"
  have len: "2 \<le> length ?t"
    using assms by (simp add: format_time_def length_fmt2)
  have nt: "\<forall>c\<in>set ?t. c \<noteq> CHR ''-'' \<and> c \<noteq> CHR ''+''"
    using format_time_no_sign by blast
  show ?thesis
  proof (cases off)
    case None
    have "CHR ''-'' \<notin> set ?t" "CHR ''+'' \<notin> set ?t"
      using nt by blast+
    then show ?thesis
      using None len parse_format_time[OF assms(1-4)]
      by (simp add: parse_isoformat_time_def format_offset_def)
  next
    case (Some v)
    let ?b = "offset_body (nat \<bar>v\<bar>)"
    let ?sg = "if v < 0 then CHR ''-'' else CHR ''+''"
    have v: "valid_offset v" using assms(5) Some by simp
    have nb: "\<forall>c\<in>set ?b. c \<noteq> CHR ''-'' \<and> c \<noteq> CHR ''+''"
      using offset_body_no_sign by blast
    have fo: "format_offset (Some v) = ?sg # ?b"
      by (simp add: format_offset_def)
    have "parse_isoformat_time (?t @ ?sg # ?b) =
      do { comps \<leftarrow> parse_hh_mm_ss_ff ?t; off \<leftarrow> parse_tz ?sg ?b; Some (comps, Some off) }"
      by (rule split_at_sign[OF nt nb _ len]) simp
    then show ?thesis
      using Some parse_format_time[OF assms(1-4)] parse_tz_offset_body[OF v]
      by (simp only: fo) simp
  qed
qed

lemma parse_isoformat_date_format:
  assumes "y \<le> 9999" "m \<le> 99" "d \<le> 99"
  shows "parse_isoformat_date (fmt_d 4 y @ ''-'' @ fmt_d 2 m @ ''-'' @ fmt_d 2 d) = Some (y, m, d)"
  using assms
  by (simp add: parse_isoformat_date_def length_fmt2 length_fmt4 parse_int_fmt_d nth_append)

lemma valid_datetime_bounds:
  assumes "valid_datetime d"
  shows "year d \<le> 9999" "month d \<le> 99" "day d \<le> 99" "hour d \<le> 99" "minute d \<le> 99"
    "second d \<le> 99" "microsecond d \<le> 999999"
    "case tzinfo d of None \<Rightarrow> True | Some v \<Rightarrow> valid_offset v"
  using assms by (auto simp: valid_datetime_def days_in_month_def split: if_splits)

lemma fromisoformat_isoformat:
  assumes "valid_datetime d"
  shows "fromisoformat (isoformat d) = Inr d"
proof -
  note b = valid_datetime_bounds[OF assms]
  let ?date = "fmt_d 4 (year d) @ ''-'' @ fmt_d 2 (month d) @ ''-'' @ fmt_d 2 (day d)"
  let ?time = "format_time (hour d) (minute d) (second d) (microsecond d)
                 @ format_offset (tzinfo d)"
  have iso: "isoformat d = ?date @ CHR ''T'' # ?time"
    by (simp add: isoformat_def)
  have ld: "length ?date = 10"
    using b by (simp add: length_fmt2 length_fmt4)
  have lt: "length ?time \<noteq> 0"
    using b by (simp add: format_time_def length_fmt2)
  have 1: "take 10 (isoformat d) = ?date"
    using ld by (simp only: iso take_append) simp
  have 2: "drop 11 (isoformat d) = ?time"
    using ld by (simp only: iso drop_append) simp
  have 3: "length (isoformat d) \<noteq> 10"
    using ld lt by (simp only: iso length_append) simp
  have r: "\<lparr>year = year d, month = month d, day = day d, hour = hour d, minute = minute d,
        second = second d, microsecond = microsecond d, tzinfo = tzinfo d\<rparr> = d"
    by simp
  have "fromisoformat (isoformat d) =
      (let dt = \<lparr>year = year d, month = month d, day = day d, hour = hour d, minute = minute d,
        second = second d, microsecond = microsecond d, tzinfo = tzinfo d\<rparr>
       in if valid_datetime dt then Inr dt else Inl ValueError_isoformat)"
    using parse_isoformat_date_format[OF b(1-3)] parse_isoformat_time_format[OF b(4-8)]
    by (simp add: fromisoformat_def 1 2 3)
  also have "\<dots> = Inr d"
    unfolding Let_def r using assms by simp
  finally show ?thesis .
qed

lemma isoformat_no_Z: "CHR ''Z'' \<notin> set (isoformat d)"
  by (cases "tzinfo d")
     (simp_all add: isoformat_def format_time_def format_offset_def offset_body_def Let_def
        fmt_d_no_Z)

lemma not_endswith_Z_isoformat: "\<not> endswith_Z (isoformat d)"
  by (metis endswith_Z_def isoformat_no_Z last_in_set)


text \<open>Evaluating the model on concrete values.\<close>

lemma replicate_numeral: "replicate (numeral k) x = x # replicate (pred_numeral k) x"
  by (simp add: numeral_eq_Suc)

lemmas datetime_eval =
  replicate_numeral char_of_eq_iff isoformat_def fromisoformat_def format_time_def
  format_offset_def offset_body_def fmt_d_def str_nat.simps digit_char_def
  parse_isoformat_date_def parse_isoformat_time_def parse_hh_mm_ss_ff_def parse_tz_def
  parse_fraction_def parse_int_def is_digit_def digit_val_def valid_datetime_def
  valid_offset_def days_in_month_def is_leap_def aware_def Let_def

section \<open>Properties of the program\<close>

subsection \<open>Serialisation of items\<close>



subsection \<open>Construction of items\<close>

text \<open>
  C5. The claim as stated fails for \<open>created_at\<close>: a construction with a naive
  \<open>created_at\<close> (and aware \<open>received_at\<close>, \<open>scheduled_for\<close>) does not raise; it
  returns an item whose \<open>created_at\<close> has the same fields and the offset of UTC.
\<close>

theorem TodoItem_naive_created_at_counterexample:
  "tzinfo (NOW\<lparr>tzinfo := None\<rparr>) = None \<and>
   TodoItem ''1'' ''Subject 1'' ''Alice'' NOW NOW ''Hello'' None False (NOW\<lparr>tzinfo := None\<rparr>)
     \<noteq> Inl ValueError_naive \<and>
   TodoItem ''1'' ''Subject 1'' ''Alice'' NOW NOW ''Hello'' None False (NOW\<lparr>tzinfo := None\<rparr>)
     = Inr \<lparr>message_id = ''1'', subject = ''Subject 1'', sender = ''Alice'', received_at = NOW,
            scheduled_for = NOW, body_preview = ''Hello'', web_link = None, completed = False,
            created_at = NOW\<rparr>"
  by (simp add: TodoItem_def ensure_tz_def NOW_def)

text \<open>
  C5, amended. Construction raises the naive-timestamp error when \<open>received_at\<close> or
  \<open>scheduled_for\<close> is naive. When both are aware it returns the item of its arguments,
  where a naive \<open>created_at\<close> has been given the offset of UTC. Hence the three
  timestamps of every constructed item are aware.
\<close>

theorem TodoItem_naive_timestamps:
  "(tzinfo recv = None \<or> tzinfo sched = None \<longrightarrow>
      TodoItem mid subj sndr recv sched body link compl created = Inl ValueError_naive) \<and>
   (tzinfo recv \<noteq> None \<and> tzinfo sched \<noteq> None \<longrightarrow>
      TodoItem mid subj sndr recv sched body link compl created =
        Inr \<lparr>message_id = mid, subject = subj, sender = sndr, received_at = recv,
             scheduled_for = sched, body_preview = body, web_link = link, completed = compl,
             created_at = (if tzinfo created = None then created\<lparr>tzinfo := Some 0\<rparr>
                           else created)\<rparr>) \<and>
   (\<forall>r. TodoItem mid subj sndr recv sched body link compl created = Inr r \<longrightarrow>
      aware (received_at r) \<and> aware (scheduled_for r) \<and> aware (created_at r))"
  by (auto simp: TodoItem_def ensure_tz_def aware_def)

theorem TodoItem_naive_timestamps_witness:
  "TodoItem ''1'' ''Subject 1'' ''Alice'' (NOW\<lparr>tzinfo := None\<rparr>) NOW ''Hello'' None False NOW
     = Inl ValueError_naive \<and>
   TodoItem ''1'' ''Subject 1'' ''Alice'' NOW (NOW\<lparr>tzinfo := None\<rparr>) ''Hello'' None False NOW
     = Inl ValueError_naive \<and>
   TodoItem ''1'' ''Subject 1'' ''Alice'' NOW NOW ''Hello'' None False (NOW\<lparr>tzinfo := None\<rparr>)
     = Inr \<lparr>message_id = ''1'', subject = ''Subject 1'', sender = ''Alice'', received_at = NOW,
            scheduled_for = NOW, body_preview = ''Hello'', web_link = None, completed = False,
            created_at = NOW\<rparr> \<and>
   aware (created_at \<lparr>message_id = ''1'', subject = ''Subject 1'', sender = ''Alice'',
            received_at = NOW, scheduled_for = NOW, body_preview = ''Hello'', web_link = None,
            completed = False, created_at = NOW\<rparr>)"
  using TodoItem_naive_timestamps[where recv="NOW\<lparr>tzinfo := None\<rparr>" and sched=NOW
          and mid="''1''" and subj="''Subject 1''" and sndr="''Alice''" and body="''Hello''"
          and link=None and compl=False and created=NOW]
        TodoItem_naive_timestamps[where recv=NOW and sched="NOW\<lparr>tzinfo := None\<rparr>"
          and mid="''1''" and subj="''Subject 1''" and sndr="''Alice''" and body="''Hello''"
          and link=None and compl=False and created=NOW]
        TodoItem_naive_timestamps[where recv=NOW and sched=NOW
          and mid="''1''" and subj="''Subject 1''" and sndr="''Alice''" and body="''Hello''"
          and link=None and compl=False and created="NOW\<lparr>tzinfo := None\<rparr>"]
  by (simp add: NOW_def aware_def)

subsection \<open>Messages of the gateway\<close>

lemma format_offset_utc: "format_offset (Some 0) = ''+00:00''"
  by (simp add: format_offset_def offset_body_def fmt_d_def str_nat.simps digit_char_def
      replicate_numeral char_of_eq_iff)

lemma format_offset_None: "format_offset None = []"
  by (simp add: format_offset_def)

lemma isoformat_naive_utc:
  "tzinfo d = None \<Longrightarrow> isoformat d @ ''+00:00'' = isoformat (d\<lparr>tzinfo := Some 0\<rparr>)"
  by (simp add: isoformat_def format_offset_utc format_offset_None)

lemma valid_datetime_utc: "valid_datetime d \<Longrightarrow> valid_datetime (d\<lparr>tzinfo := Some 0\<rparr>)"
  by (simp add: valid_datetime_def valid_offset_def)

lemma parse_graph_datetime_Z:
  assumes "valid_datetime d" "tzinfo d = None"
  shows "parse_graph_datetime (isoformat d @ ''Z'') = Inr (d\<lparr>tzinfo := Some 0\<rparr>)"
proof -
  have "endswith_Z (isoformat d @ ''Z'')" by (simp add: endswith_Z_def)
  moreover have "butlast (isoformat d @ ''Z'') = isoformat d" by (simp add: butlast_append)
  ultimately show ?thesis
    using fromisoformat_isoformat[OF valid_datetime_utc[OF assms(1)]] assms(2)
    by (simp add: parse_graph_datetime_def isoformat_naive_utc)
qed

lemma parse_graph_datetime_naive:
  assumes "valid_datetime d" "tzinfo d = None"
  shows "parse_graph_datetime (isoformat d) = Inr (d\<lparr>tzinfo := Some 0\<rparr>)"
  using fromisoformat_isoformat[OF assms(1)] assms(2)
  by (simp add: parse_graph_datetime_def not_endswith_Z_isoformat)

lemma parse_graph_datetime_aware: "parse_graph_datetime v = Inr dt \<Longrightarrow> aware dt"
  by (auto simp: parse_graph_datetime_def aware_def split: sum.splits if_splits)

text \<open>
  C10. For every message and every schedule override that is absent or aware: when
  \<open>to_todo_payload\<close> returns, the item is constructed (no naive-timestamp error), its
  \<open>received_at\<close> is aware, its subject is \<open>(no subject)\<close> when the message has no subject
  or an empty one, and its sender is \<open>Unknown sender\<close> when neither a name nor an address
  is present. A \<open>receivedDateTime\<close> that is the ISO text of a naive value \<open>d\<close>, with or
  without a trailing \<open>Z\<close>, is read as \<open>d\<close> in UTC.
\<close>

theorem to_todo_payload_defaults:
  assumes "case schedule_for of None \<Rightarrow> True | Some s \<Rightarrow> aware s"
  shows
   "(\<forall>p. to_todo_payload m schedule_for = Inr p \<longrightarrow>
       (\<exists>item. TodoItem_of_payload now p = Inr item \<and>
          aware (received_at item) \<and>
          (msg_subject m = None \<or> msg_subject m = Some [] \<longrightarrow> subject item = ''(no subject)'') \<and>
          ((case msg_from m of None \<Rightarrow> True | Some f \<Rightarrow>
              (case emailAddress f of None \<Rightarrow> True | Some a \<Rightarrow>
                 ea_name a = None \<and> ea_address a = None)) \<longrightarrow>
             sender item = ''Unknown sender''))) \<and>
    (\<forall>d mid. valid_datetime d \<and> tzinfo d = None \<and> msg_id m = Some mid \<and>
        (msg_receivedDateTime m = Some (isoformat d @ ''Z'') \<or>
         msg_receivedDateTime m = Some (isoformat d)) \<longrightarrow>
       (\<exists>p. to_todo_payload m schedule_for = Inr p \<and> p_received_at p = d\<lparr>tzinfo := Some 0\<rparr>))"
proof (intro conjI allI impI)
  fix p
  assume p: "to_todo_payload m schedule_for = Inr p"
  then obtain rs received mid where
    rs: "msg_receivedDateTime m = Some rs" and rc: "parse_graph_datetime rs = Inr received"
    and mid: "msg_id m = Some mid"
    and pe: "p = \<lparr>p_message_id = mid, p_subject = or_str (msg_subject m) ''(no subject)'',
             p_sender = extract_sender m, p_received_at = received,
             p_scheduled_for = (case schedule_for of None \<Rightarrow> received | Some s \<Rightarrow> s),
             p_body_preview = (case msg_bodyPreview m of None \<Rightarrow> [] | Some b \<Rightarrow> b),
             p_web_link = msg_webLink m\<rparr>"
    by (auto simp: to_todo_payload_def subscript_def split: option.splits sum.splits)
  have ar: "aware received" using rc by (rule parse_graph_datetime_aware)
  have as: "aware (p_scheduled_for p)"
    using assms ar pe by (cases schedule_for) simp_all
  let ?item = "\<lparr>message_id = p_message_id p, subject = p_subject p, sender = p_sender p,
      received_at = p_received_at p, scheduled_for = p_scheduled_for p,
      body_preview = p_body_preview p, web_link = p_web_link p, completed = False,
      created_at = (if tzinfo now = None then now\<lparr>tzinfo := Some 0\<rparr> else now)\<rparr>"
  have it: "TodoItem_of_payload now p = Inr ?item"
    using ar as pe by (simp add: TodoItem_of_payload_def TodoItem_def ensure_tz_def aware_def)
  have s1: "msg_subject m = None \<or> msg_subject m = Some [] \<longrightarrow> subject ?item = ''(no subject)''"
    using pe by (auto simp: or_str_def)
  have s2: "(case msg_from m of None \<Rightarrow> True | Some f \<Rightarrow>
              (case emailAddress f of None \<Rightarrow> True | Some a \<Rightarrow>
                 ea_name a = None \<and> ea_address a = None)) \<longrightarrow>
             sender ?item = ''Unknown sender''"
    using pe by (auto simp: extract_sender_def or_str_def Let_def split: option.splits)
  have s3: "aware (received_at ?item)" using ar pe by simp
  show "\<exists>item. TodoItem_of_payload now p = Inr item \<and>
          aware (received_at item) \<and>
          (msg_subject m = None \<or> msg_subject m = Some [] \<longrightarrow> subject item = ''(no subject)'') \<and>
          ((case msg_from m of None \<Rightarrow> True | Some f \<Rightarrow>
              (case emailAddress f of None \<Rightarrow> True | Some a \<Rightarrow>
                 ea_name a = None \<and> ea_address a = None)) \<longrightarrow>
             sender item = ''Unknown sender'')"
    using it s1 s2 s3 by blast
next
  fix d mid
  assume a: "valid_datetime d \<and> tzinfo d = None \<and> msg_id m = Some mid \<and>
        (msg_receivedDateTime m = Some (isoformat d @ ''Z'') \<or>
         msg_receivedDateTime m = Some (isoformat d))"
  then show "\<exists>p. to_todo_payload m schedule_for = Inr p \<and> p_received_at p = d\<lparr>tzinfo := Some 0\<rparr>"
    using parse_graph_datetime_Z[of d] parse_graph_datetime_naive[of d]
    by (auto simp: to_todo_payload_def subscript_def)
qed


theorem to_todo_payload_defaults_witness:
  "valid_datetime (NOW\<lparr>tzinfo := None\<rparr>) \<and>
   isoformat (NOW\<lparr>tzinfo := None\<rparr>) @ ''Z'' = ''2023-01-01T09:00:00Z'' \<and>
   (\<exists>p item.
      to_todo_payload
        \<lparr>msg_id = Some ''1'', msg_subject = Some [], msg_from = None,
         msg_receivedDateTime = Some ''2023-01-01T09:00:00Z'', msg_bodyPreview = None,
         msg_webLink = None\<rparr> None = Inr p \<and>
      p_received_at p = NOW \<and>
      TodoItem_of_payload NOW p = Inr item \<and> aware (received_at item) \<and>
      subject item = ''(no subject)'' \<and> sender item = ''Unknown sender'') \<and>
   isoformat (NOW\<lparr>tzinfo := None\<rparr>) = ''2023-01-01T09:00:00'' \<and>
   aware (NOW\<lparr>hour := 10\<rparr>) \<and>
   (\<exists>p item.
      to_todo_payload
        \<lparr>msg_id = Some ''2'', msg_subject = None,
         msg_from = Some \<lparr>emailAddress = Some \<lparr>ea_name = None, ea_address = None\<rparr>\<rparr>,
         msg_receivedDateTime = Some ''2023-01-01T09:00:00'', msg_bodyPreview = None,
         msg_webLink = None\<rparr> (Some (NOW\<lparr>hour := 10\<rparr>)) = Inr p \<and>
      p_received_at p = NOW \<and>
      TodoItem_of_payload NOW p = Inr item \<and> aware (received_at item) \<and>
      subject item = ''(no subject)'' \<and> sender item = ''Unknown sender'')"
proof -
  let ?m = "\<lparr>msg_id = Some ''1'', msg_subject = Some [], msg_from = None,
         msg_receivedDateTime = Some ''2023-01-01T09:00:00Z'', msg_bodyPreview = None,
         msg_webLink = None\<rparr>"
  let ?m2 = "\<lparr>msg_id = Some ''2'', msg_subject = None,
         msg_from = Some \<lparr>emailAddress = Some \<lparr>ea_name = None, ea_address = None\<rparr>\<rparr>,
         msg_receivedDateTime = Some ''2023-01-01T09:00:00'', msg_bodyPreview = None,
         msg_webLink = None\<rparr>"
  let ?d = "NOW\<lparr>tzinfo := None\<rparr>"
  have v: "valid_datetime ?d"
    by (simp add: NOW_def valid_datetime_def days_in_month_def)
  have iso: "isoformat ?d = ''2023-01-01T09:00:00''"
    by (simp add: NOW_def datetime_eval)
  have isoZ: "isoformat ?d @ ''Z'' = ''2023-01-01T09:00:00Z''"
    by (simp add: iso)
  have utc: "?d\<lparr>tzinfo := Some 0\<rparr> = NOW"
    by (simp add: NOW_def)
  have aw: "aware (NOW\<lparr>hour := 10\<rparr>)"
    by (simp add: aware_def NOW_def)
  note inst = to_todo_payload_defaults[where schedule_for=None and m="?m" and now=NOW]
  have "\<exists>p. to_todo_payload ?m None = Inr p \<and> p_received_at p = ?d\<lparr>tzinfo := Some 0\<rparr>"
    using inst v isoZ by (auto simp: NOW_def)
  then obtain p where p: "to_todo_payload ?m None = Inr p" and r: "p_received_at p = NOW"
    using utc by auto
  have "\<exists>item. TodoItem_of_payload NOW p = Inr item \<and> aware (received_at item) \<and>
      subject item = ''(no subject)'' \<and> sender item = ''Unknown sender''"
    using inst p by auto
  then have 1: "\<exists>p item. to_todo_payload ?m None = Inr p \<and> p_received_at p = NOW \<and>
      TodoItem_of_payload NOW p = Inr item \<and> aware (received_at item) \<and>
      subject item = ''(no subject)'' \<and> sender item = ''Unknown sender''"
    using p r by (intro exI[of _ p]) simp
  note inst2 = to_todo_payload_defaults[where schedule_for="Some (NOW\<lparr>hour := 10\<rparr>)"
      and m="?m2" and now=NOW]
  have "\<exists>p. to_todo_payload ?m2 (Some (NOW\<lparr>hour := 10\<rparr>)) = Inr p \<and>
      p_received_at p = ?d\<lparr>tzinfo := Some 0\<rparr>"
    using inst2 v iso aw by (auto simp: NOW_def)
  then obtain p2 where p2: "to_todo_payload ?m2 (Some (NOW\<lparr>hour := 10\<rparr>)) = Inr p2"
    and r2: "p_received_at p2 = NOW"
    using utc by auto
  have "\<exists>item. TodoItem_of_payload NOW p2 = Inr item \<and> aware (received_at item) \<and>
      subject item = ''(no subject)'' \<and> sender item = ''Unknown sender''"
    using inst2 p2 aw by auto
  then have 2: "\<exists>p item. to_todo_payload ?m2 (Some (NOW\<lparr>hour := 10\<rparr>)) = Inr p \<and>
      p_received_at p = NOW \<and>
      TodoItem_of_payload NOW p = Inr item \<and> aware (received_at item) \<and>
      subject item = ''(no subject)'' \<and> sender item = ''Unknown sender''"
    using p2 r2 by (intro exI[of _ p2]) simp
  show ?thesis
    by (intro conjI v isoZ 1 iso aw 2)
qed

subsection \<open>Listing the store\<close>

lemma TodoStorage_all_aware:
  "aware_store st \<Longrightarrow>
   TodoStorage_all st = Inr (sort_key (\<lambda>item. instant (scheduled_for item)) (map snd (items st)))"
  by (auto simp: TodoStorage_all_def aware_store_def Let_def)

text \<open>
  C6. The tie-break of the claim fails: two items with the same \<open>scheduled_for\<close>, stored
  under \<open>b\<close> and then under \<open>a\<close>, are listed in that order, not in the order of their
  ids.
\<close>

theorem TodoStorage_all_tie_counterexample:
  "TodoStorage_all
     \<lparr>items =
        [(''b'', \<lparr>message_id = ''b'', subject = ''Subject'', sender = ''sender@example.com'',
                  received_at = NOW, scheduled_for = NOW, body_preview = [], web_link = None,
                  completed = False, created_at = NOW\<rparr>),
         (''a'', \<lparr>message_id = ''a'', subject = ''Subject'', sender = ''sender@example.com'',
                  received_at = NOW, scheduled_for = NOW, body_preview = [], web_link = None,
                  completed = False, created_at = NOW\<rparr>)],
      document = None, calls = []\<rparr>
   = Inr [\<lparr>message_id = ''b'', subject = ''Subject'', sender = ''sender@example.com'',
            received_at = NOW, scheduled_for = NOW, body_preview = [], web_link = None,
            completed = False, created_at = NOW\<rparr>,
          \<lparr>message_id = ''a'', subject = ''Subject'', sender = ''sender@example.com'',
            received_at = NOW, scheduled_for = NOW, body_preview = [], web_link = None,
            completed = False, created_at = NOW\<rparr>]
   \<and> ''a'' < ''b''"
  by (simp add: TodoStorage_all_def Let_def)

text \<open>
  C6, amended. For every store whose items have aware \<open>scheduled_for\<close> timestamps,
  \<open>all()\<close> returns the held items (each as often as it is held) in ascending order of
  the instants of \<open>scheduled_for\<close>, and items with the same instant keep the order in
  which the store holds them (its insertion order); the ids play no part.
\<close>

theorem TodoStorage_all_sorted_stable:
  assumes "aware_store st"
  shows "\<exists>xs. TodoStorage_all st = Inr xs \<and>
           sorted (map (\<lambda>item. instant (scheduled_for item)) xs) \<and>
           mset xs = mset (map snd (items st)) \<and>
           (\<forall>k. filter (\<lambda>item. instant (scheduled_for item) = k) xs =
                filter (\<lambda>item. instant (scheduled_for item) = k) (map snd (items st)))"
  using TodoStorage_all_aware[OF assms] by (simp add: sort_key_stable)


theorem TodoStorage_all_sorted_stable_witness:
  "aware_store
     \<lparr>items =
        [(''late'', \<lparr>message_id = ''late'', subject = ''Subject'', sender = ''sender@example.com'',
                  received_at = NOW, scheduled_for = NOW\<lparr>hour := 10\<rparr>, body_preview = [],
                  web_link = None, completed = False, created_at = NOW\<rparr>),
         (''b'', \<lparr>message_id = ''b'', subject = ''Subject'', sender = ''sender@example.com'',
                  received_at = NOW, scheduled_for = NOW, body_preview = [], web_link = None,
                  completed = False, created_at = NOW\<rparr>),
         (''a'', \<lparr>message_id = ''a'', subject = ''Subject'', sender = ''sender@example.com'',
                  received_at = NOW, scheduled_for = NOW, body_preview = [], web_link = None,
                  completed = False, created_at = NOW\<rparr>)],
      document = None, calls = []\<rparr>
   \<and> (\<exists>xs. TodoStorage_all
     \<lparr>items =
        [(''late'', \<lparr>message_id = ''late'', subject = ''Subject'', sender = ''sender@example.com'',
                  received_at = NOW, scheduled_for = NOW\<lparr>hour := 10\<rparr>, body_preview = [],
                  web_link = None, completed = False, created_at = NOW\<rparr>),
         (''b'', \<lparr>message_id = ''b'', subject = ''Subject'', sender = ''sender@example.com'',
                  received_at = NOW, scheduled_for = NOW, body_preview = [], web_link = None,
                  completed = False, created_at = NOW\<rparr>),
         (''a'', \<lparr>message_id = ''a'', subject = ''Subject'', sender = ''sender@example.com'',
                  received_at = NOW, scheduled_for = NOW, body_preview = [], web_link = None,
                  completed = False, created_at = NOW\<rparr>)],
      document = None, calls = []\<rparr> = Inr xs
     \<and> sorted (map (\<lambda>item. instant (scheduled_for item)) xs)
     \<and> map message_id (filter (\<lambda>item. instant (scheduled_for item) = instant NOW) xs)
         = [''b'', ''a''])"
proof -
  let ?st = "\<lparr>items =
        [(''late'', \<lparr>message_id = ''late'', subject = ''Subject'', sender = ''sender@example.com'',
                  received_at = NOW, scheduled_for = NOW\<lparr>hour := 10\<rparr>, body_preview = [],
                  web_link = None, completed = False, created_at = NOW\<rparr>),
         (''b'', \<lparr>message_id = ''b'', subject = ''Subject'', sender = ''sender@example.com'',
                  received_at = NOW, scheduled_for = NOW, body_preview = [], web_link = None,
                  completed = False, created_at = NOW\<rparr>),
         (''a'', \<lparr>message_id = ''a'', subject = ''Subject'', sender = ''sender@example.com'',
                  received_at = NOW, scheduled_for = NOW, body_preview = [], web_link = None,
                  completed = False, created_at = NOW\<rparr>)],
      document = None, calls = []\<rparr>"
  have h: "aware_store ?st"
    by (simp add: aware_store_def aware_def NOW_def)
  have ne: "instant (NOW\<lparr>hour := 10\<rparr>) \<noteq> instant NOW"
    by (simp add: instant_def toordinal_def NOW_def)
  obtain xs where xs: "TodoStorage_all ?st = Inr xs"
    and s: "sorted (map (\<lambda>item. instant (scheduled_for item)) xs)"
    and f: "\<forall>k. filter (\<lambda>item. instant (scheduled_for item) = k) xs =
                filter (\<lambda>item. instant (scheduled_for item) = k) (map snd (items ?st))"
    using TodoStorage_all_sorted_stable[OF h] by (elim exE conjE)
  have "map message_id (filter (\<lambda>item. instant (scheduled_for item) = instant NOW) xs)
         = [''b'', ''a'']"
    using ne by (simp add: f)
  then have "\<exists>xs. TodoStorage_all ?st = Inr xs
     \<and> sorted (map (\<lambda>item. instant (scheduled_for item)) xs)
     \<and> map message_id (filter (\<lambda>item. instant (scheduled_for item) = instant NOW) xs)
         = [''b'', ''a'']"
    using xs s by (intro exI[of _ xs] conjI)
  then show ?thesis using h by (rule conjI[rotated])
qed

subsection \<open>Completing an item\<close>

text \<open>
  C7. On a completed item \<open>mark_done\<close> returns the stored item and leaves the whole state
  as it was: no call to the gateway is logged, nothing is saved, the store is not
  modified. On an id the store does not hold it fails with the not-found error, again
  with the state as it was. Both hold for every gateway, one that raises included.
\<close>

theorem mark_done_idempotent:
  "(\<forall>item. TodoStorage_get st mid = Some item \<and> completed item \<longrightarrow>
      mark_done gw mid st = (Inr item, st)) \<and>
   (TodoStorage_get st mid = None \<longrightarrow> mark_done gw mid st = (Inl (KeyError_no_todo mid), st))"
  by (simp add: mark_done_def)

theorem mark_done_idempotent_witness:
  "TodoStorage_get (empty_store\<lparr>items := [(''1'', (make_item ''1'')\<lparr>completed := True\<rparr>)]\<rparr>) ''1''
     = Some ((make_item ''1'')\<lparr>completed := True\<rparr>) \<and>
   completed ((make_item ''1'')\<lparr>completed := True\<rparr>) \<and>
   mark_done raising_gateway ''1''
       (empty_store\<lparr>items := [(''1'', (make_item ''1'')\<lparr>completed := True\<rparr>)]\<rparr>)
     = (Inr ((make_item ''1'')\<lparr>completed := True\<rparr>),
        empty_store\<lparr>items := [(''1'', (make_item ''1'')\<lparr>completed := True\<rparr>)]\<rparr>) \<and>
   TodoStorage_get (empty_store\<lparr>items := [(''1'', (make_item ''1'')\<lparr>completed := True\<rparr>)]\<rparr>) ''2''
     = None \<and>
   mark_done raising_gateway ''2''
       (empty_store\<lparr>items := [(''1'', (make_item ''1'')\<lparr>completed := True\<rparr>)]\<rparr>)
     = (Inl (KeyError_no_todo ''2''),
        empty_store\<lparr>items := [(''1'', (make_item ''1'')\<lparr>completed := True\<rparr>)]\<rparr>)"
proof -
  let ?st = "empty_store\<lparr>items := [(''1'', (make_item ''1'')\<lparr>completed := True\<rparr>)]\<rparr>"
  have 1: "TodoStorage_get ?st ''1'' = Some ((make_item ''1'')\<lparr>completed := True\<rparr>)"
    and 2: "TodoStorage_get ?st ''2'' = None"
    and 3: "completed ((make_item ''1'')\<lparr>completed := True\<rparr>)"
    by (simp_all add: TodoStorage_get_def)
  show ?thesis
    using 1 2 3
      mark_done_idempotent[where st="?st" and mid="''1''" and gw=raising_gateway]
      mark_done_idempotent[where st="?st" and mid="''2''" and gw=raising_gateway]
    by simp
qed

text \<open>
  C2. For a stored item that is not completed, \<open>mark_done\<close> calls the gateway first. When
  that call raises, the exception is passed on and nothing local has changed: the items
  of the store (the \<open>completed\<close> flag of the item among them) and the persisted document
  are those of before; only the call itself is in the log. When the call succeeds
  (and the item is stored under its own id), the flag is set, the store is saved once,
  and the log shows the gateway call before the save.
\<close>

theorem mark_done_gateway_failure:
  assumes "TodoStorage_get st mid = Some item" and "\<not> completed item"
  shows
    "(\<forall>e. mark_email_as_read gw mid = Some e \<longrightarrow>
        mark_done gw mid st = (Inl e, st\<lparr>calls := calls st @ [MarkRead mid]\<rparr>) \<and>
        items (snd (mark_done gw mid st)) = items st \<and>
        TodoStorage_get (snd (mark_done gw mid st)) mid = Some item \<and>
        document (snd (mark_done gw mid st)) = document st) \<and>
     (mark_email_as_read gw mid = None \<and> message_id item = mid \<longrightarrow>
        mark_done gw mid st =
          (Inr (item\<lparr>completed := True\<rparr>),
           st\<lparr>items := AList.update mid (item\<lparr>completed := True\<rparr>) (items st),
              document := Some (map (\<lambda>(k, item). to_dict item)
                (AList.update mid (item\<lparr>completed := True\<rparr>) (items st))),
              calls := calls st @
                [MarkRead mid,
                 Save (map (\<lambda>(k, item). to_dict item)
                   (AList.update mid (item\<lparr>completed := True\<rparr>) (items st)))]\<rparr>))"
proof (intro conjI allI impI)
  fix e
  assume e: "mark_email_as_read gw mid = Some e"
  show m: "mark_done gw mid st = (Inl e, st\<lparr>calls := calls st @ [MarkRead mid]\<rparr>)"
    using assms e by (simp add: mark_done_def Let_def)
  show "items (snd (mark_done gw mid st)) = items st"
    and "document (snd (mark_done gw mid st)) = document st"
    by (simp_all add: m)
  show "TodoStorage_get (snd (mark_done gw mid st)) mid = Some item"
    using assms(1) by (simp add: m TodoStorage_get_def)
next
  assume ok: "mark_email_as_read gw mid = None \<and> message_id item = mid"
  have c: "map_of (AList.update mid (item\<lparr>completed := True\<rparr>) (items st)) mid \<noteq> None"
    by (simp add: AList.update_conv')
  show "mark_done gw mid st =
          (Inr (item\<lparr>completed := True\<rparr>),
           st\<lparr>items := AList.update mid (item\<lparr>completed := True\<rparr>) (items st),
              document := Some (map (\<lambda>(k, item). to_dict item)
                (AList.update mid (item\<lparr>completed := True\<rparr>) (items st))),
              calls := calls st @
                [MarkRead mid,
                 Save (map (\<lambda>(k, item). to_dict item)
                   (AList.update mid (item\<lparr>completed := True\<rparr>) (items st)))]\<rparr>)"
    using assms ok c
    by (simp add: mark_done_def Let_def TodoStorage_update_def TodoStorage_contains_def
        TodoStorage_save_def)
qed


theorem mark_done_gateway_failure_witness:
  "TodoStorage_get (empty_store\<lparr>items := [(''1'', make_item ''1'')]\<rparr>) ''1'' = Some (make_item ''1'') \<and>
   \<not> completed (make_item ''1'') \<and>
   mark_email_as_read raising_gateway ''1'' = Some (GraphApiError 503 ''unavailable'') \<and>
   mark_done raising_gateway ''1'' (empty_store\<lparr>items := [(''1'', make_item ''1'')]\<rparr>)
     = (Inl (GraphApiError 503 ''unavailable''),
        empty_store\<lparr>items := [(''1'', make_item ''1'')], calls := [MarkRead ''1'']\<rparr>) \<and>
   mark_email_as_read DummyGraph ''1'' = None \<and> message_id (make_item ''1'') = ''1'' \<and>
   mark_done DummyGraph ''1'' (empty_store\<lparr>items := [(''1'', make_item ''1'')]\<rparr>)
     = (Inr ((make_item ''1'')\<lparr>completed := True\<rparr>),
        empty_store\<lparr>items := [(''1'', (make_item ''1'')\<lparr>completed := True\<rparr>)],
          document := Some [to_dict ((make_item ''1'')\<lparr>completed := True\<rparr>)],
          calls := [MarkRead ''1'', Save [to_dict ((make_item ''1'')\<lparr>completed := True\<rparr>)]]\<rparr>)"
proof -
  let ?st = "empty_store\<lparr>items := [(''1'', make_item ''1'')]\<rparr>"
  have 1: "TodoStorage_get ?st ''1'' = Some (make_item ''1'')"
    by (simp add: TodoStorage_get_def)
  have 2: "\<not> completed (make_item ''1'')" and 3: "message_id (make_item ''1'') = ''1''"
    by (simp_all add: make_item_def)
  have 4: "mark_email_as_read raising_gateway ''1'' = Some (GraphApiError 503 ''unavailable'')"
    by (simp add: raising_gateway_def)
  have 5: "mark_email_as_read DummyGraph ''1'' = None"
    by (simp add: DummyGraph_def InMemoryGraphClient_def)
  have 6: "calls ?st = []" "items ?st = [(''1'', make_item ''1'')]"
    by (simp_all add: empty_store_def)
  show ?thesis
    using 1 2 3 4 5
      mark_done_gateway_failure[OF 1 2, where gw=raising_gateway]
      mark_done_gateway_failure[OF 1 2, where gw=DummyGraph]
    by (simp add: 6)
qed

subsection \<open>Synchronisation\<close>

lemma contains_update:
  "TodoStorage_contains (st\<lparr>items := AList.update k v (items st)\<rparr>) k' \<longleftrightarrow>
     k' = k \<or> TodoStorage_contains st k'"
  by (simp add: TodoStorage_contains_def AList.update_conv')

lemma contains_calls [simp]:
  "TodoStorage_contains (st\<lparr>calls := c\<rparr>) k = TodoStorage_contains st k"
  by (simp add: TodoStorage_contains_def)

lemma contains_save [simp]:
  "TodoStorage_contains (TodoStorage_save st) k = TodoStorage_contains st k"
  by (simp add: TodoStorage_contains_def TodoStorage_save_def Let_def)

lemma to_todo_payload_id:
  "to_todo_payload m s = Inr p \<Longrightarrow> msg_id m = Some (p_message_id p)"
  by (auto simp: to_todo_payload_def subscript_def split: option.splits sum.splits)

lemma TodoItem_of_payload_id:
  "TodoItem_of_payload now p = Inr todo \<Longrightarrow> message_id todo = p_message_id p"
  by (auto simp: TodoItem_of_payload_def TodoItem_def split: sum.splits)

text \<open>One turn of the loop on a message that yields a new item.\<close>

lemma sync_loop_Cons:
  "sync_loop clock s (m # ms) acc st = (res, st') \<Longrightarrow>
     (\<exists>e. res = Inl e \<and> st' = st) \<or>
     (\<exists>mid. msg_id m = Some mid \<and> TodoStorage_contains st mid \<and>
        sync_loop clock s ms acc st = (res, st')) \<or>
     (\<exists>mid todo. msg_id m = Some mid \<and> \<not> TodoStorage_contains st mid \<and>
        message_id todo = mid \<and>
        sync_loop clock s ms (acc @ [todo])
          (st\<lparr>items := AList.update mid todo (items st)\<rparr>) = (res, st'))"
  by (auto simp: subscript_def TodoStorage_add_def split: option.splits sum.splits if_splits
      dest!: to_todo_payload_id TodoItem_of_payload_id)

lemma sync_loop_frame:
  "sync_loop clock s ms acc st = (res, st') \<Longrightarrow>
     calls st' = calls st \<and> document st' = document st \<and>
     (\<forall>k. TodoStorage_contains st k \<longrightarrow> TodoStorage_contains st' k)"
proof (induction ms arbitrary: acc st)
  case Nil
  then show ?case by simp
next
  case (Cons m ms)
  from sync_loop_Cons[OF Cons.prems] show ?case
  proof (elim disjE exE conjE)
    fix e assume "res = Inl e" "st' = st"
    then show ?thesis by simp
  next
    fix mid assume "sync_loop clock s ms acc st = (res, st')"
    then show ?thesis by (rule Cons.IH)
  next
    fix mid todo
    assume "sync_loop clock s ms (acc @ [todo])
          (st\<lparr>items := AList.update mid todo (items st)\<rparr>) = (res, st')"
    from Cons.IH[OF this] show ?thesis by (simp add: contains_update)
  qed
qed

lemma sync_loop_result:
  "sync_loop clock s ms acc st = (Inr new, st') \<Longrightarrow>
     (\<exists>added. new = acc @ added \<and> (added = [] \<longrightarrow> st' = st) \<and>
        (\<forall>t \<in> set added. TodoStorage_contains st' (message_id t))) \<and>
     (\<forall>m \<in> set ms. \<exists>mid. msg_id m = Some mid \<and> TodoStorage_contains st' mid)"
proof (induction ms arbitrary: acc st)
  case Nil
  then show ?case by simp
next
  case (Cons m ms)
  from sync_loop_Cons[OF Cons.prems] show ?case
  proof (elim disjE exE conjE)
    fix e assume "Inr new = Inl e"
    then show ?thesis by simp
  next
    fix mid
    assume m: "msg_id m = Some mid" and c: "TodoStorage_contains st mid"
      and l: "sync_loop clock s ms acc st = (Inr new, st')"
    have "TodoStorage_contains st' mid"
      using sync_loop_frame[OF l] c by simp
    then show ?thesis using Cons.IH[OF l] m by simp
  next
    fix mid todo
    assume m: "msg_id m = Some mid" and t: "message_id todo = mid"
      and l: "sync_loop clock s ms (acc @ [todo])
          (st\<lparr>items := AList.update mid todo (items st)\<rparr>) = (Inr new, st')"
    have c: "TodoStorage_contains st' mid"
      using sync_loop_frame[OF l] by (simp add: contains_update)
    from Cons.IH[OF l] obtain added where
      a: "new = (acc @ [todo]) @ added"
      and b: "\<forall>t \<in> set added. TodoStorage_contains st' (message_id t)"
      and r: "\<forall>m \<in> set ms. \<exists>mid. msg_id m = Some mid \<and> TodoStorage_contains st' mid"
      by blast
    have "new = acc @ (todo # added)" using a by simp
    moreover have "\<forall>t \<in> set (todo # added). TodoStorage_contains st' (message_id t)"
      using b c t by simp
    ultimately have "\<exists>added. new = acc @ added \<and> (added = [] \<longrightarrow> st' = st) \<and>
        (\<forall>t \<in> set added. TodoStorage_contains st' (message_id t))"
      by blast
    then show ?thesis using r m c by simp
  qed
qed

lemma sync_loop_known:
  "\<forall>m \<in> set ms. \<exists>mid. msg_id m = Some mid \<and> TodoStorage_contains st mid \<Longrightarrow>
     sync_loop clock s ms acc st = (Inr acc, st)"
  by (induction ms) (auto simp: subscript_def)

lemma fromisoformat_dummy: "fromisoformat ''2023-01-01T09:00:00+00:00'' = Inr NOW"
  by (simp add: NOW_def datetime_eval)

lemma sync_dummy:
  "sync_unread_emails DummyGraph (\<lambda>k. NOW) 25 None empty_store =
     (Inr [dummy_item], dummy_synced)"
proof -
  have p: "parse_graph_datetime ''2023-01-01T09:00:00+00:00'' = Inr NOW"
    by (simp add: parse_graph_datetime_def endswith_Z_def fromisoformat_dummy) (simp add: NOW_def)
  have t: "to_todo_payload dummy_message None =
      Inr \<lparr>p_message_id = ''1'', p_subject = ''Subject 1'', p_sender = ''Alice'',
           p_received_at = NOW, p_scheduled_for = NOW, p_body_preview = ''Hello'',
           p_web_link = Some ''https://outlook.example/1''\<rparr>"
    by (simp add: to_todo_payload_def dummy_message_def subscript_def p or_str_def
        extract_sender_def)
  have i: "TodoItem_of_payload NOW
      \<lparr>p_message_id = ''1'', p_subject = ''Subject 1'', p_sender = ''Alice'',
           p_received_at = NOW, p_scheduled_for = NOW, p_body_preview = ''Hello'',
           p_web_link = Some ''https://outlook.example/1''\<rparr> = Inr dummy_item"
    by (simp add: TodoItem_of_payload_def TodoItem_def ensure_tz_def dummy_item_def)
       (simp add: NOW_def)
  have l: "sync_loop (\<lambda>k. NOW) None [dummy_message] [] \<lparr>items = [], document = None, calls = [Fetch 25]\<rparr>
      = (Inr [dummy_item], \<lparr>items = [(''1'', dummy_item)], document = None, calls = [Fetch 25]\<rparr>)"
    by (simp add: dummy_message_def t[unfolded dummy_message_def] i subscript_def
        TodoStorage_contains_def TodoStorage_add_def dummy_item_def)
  show ?thesis
    by (simp add: sync_unread_emails_def DummyGraph_def InMemoryGraphClient_def slice_to_def
        empty_store_def dummy_synced_def l TodoStorage_save_def Let_def del: sync_loop.simps)
qed

text \<open>
  C8. \<open>sync_unread_emails\<close> saves only on change. When the gateway returns no message
  the result is empty. When the result is empty the state is the one of before but for
  the logged fetch: \<open>save\<close> was not called, the document is not rewritten. When new
  items were produced there is exactly one \<open>save\<close>, the last call of the run: its
  document is the serialisation of the final store, which holds every new item. When
  the run raises nothing is saved.
\<close>

theorem sync_saves_only_on_change:
  assumes "sync_unread_emails gw clock limit schedule_for st = (res, st')"
  shows
    "(fetch_unread_emails gw limit = Inr [] \<longrightarrow> res = Inr []) \<and>
     (res = Inr [] \<longrightarrow> st' = st\<lparr>calls := calls st @ [Fetch limit]\<rparr>) \<and>
     (\<forall>new. res = Inr new \<and> new \<noteq> [] \<longrightarrow>
        (\<forall>t \<in> set new. TodoStorage_contains st' (message_id t)) \<and>
        document st' = Some (map (\<lambda>(k, item). to_dict item) (items st')) \<and>
        calls st' =
          calls st @ [Fetch limit, Save (map (\<lambda>(k, item). to_dict item) (items st'))]) \<and>
     (\<forall>e. res = Inl e \<longrightarrow> document st' = document st \<and> calls st' = calls st @ [Fetch limit])"
proof (cases "fetch_unread_emails gw limit")
  case (Inl e)
  then show ?thesis
    using assms by (auto simp: sync_unread_emails_def Let_def)
next
  case (Inr messages)
  let ?st0 = "st\<lparr>calls := calls st @ [Fetch limit]\<rparr>"
  obtain r st1 where l: "sync_loop clock schedule_for messages [] ?st0 = (r, st1)"
    by (cases "sync_loop clock schedule_for messages [] ?st0")
  note f = sync_loop_frame[OF l]
  show ?thesis
  proof (cases r)
    case (Inl e)
    then have "res = Inl e" "st' = st1"
      using assms Inr l by (simp_all add: sync_unread_emails_def Let_def)
    moreover have "messages \<noteq> []"
      using l Inl by (cases messages) auto
    ultimately show ?thesis using f Inr by simp
  next
    case new: (Inr new)
    from sync_loop_result[OF l[unfolded new]] have
      e: "new = [] \<longrightarrow> st1 = ?st0"
      and c: "\<forall>t \<in> set new. TodoStorage_contains st1 (message_id t)"
      by auto
    have res: "res = Inr new" and st': "st' = (if new \<noteq> [] then TodoStorage_save st1 else st1)"
      using assms Inr l new by (simp_all add: sync_unread_emails_def Let_def)
    have "messages = [] \<longrightarrow> new = []"
      using l new by auto
    then show ?thesis
      using res st' e c f Inr
      by (auto simp: TodoStorage_save_def TodoStorage_contains_def Let_def)
  qed
qed

theorem sync_saves_only_on_change_witness:
  "fetch_unread_emails (InMemoryGraphClient []) 25 = Inr [] \<and>
   sync_unread_emails (InMemoryGraphClient []) (\<lambda>k. NOW) 25 None dummy_synced
     = (Inr [], dummy_synced\<lparr>calls := calls dummy_synced @ [Fetch 25]\<rparr>) \<and>
   sync_unread_emails DummyGraph (\<lambda>k. NOW) 25 None empty_store = (Inr [dummy_item], dummy_synced) \<and>
   [dummy_item] \<noteq> [] \<and>
   TodoStorage_contains dummy_synced (message_id dummy_item) \<and>
   document dummy_synced = Some (map (\<lambda>(k, item). to_dict item) (items dummy_synced)) \<and>
   calls dummy_synced =
     calls empty_store @ [Fetch 25, Save (map (\<lambda>(k, item). to_dict item) (items dummy_synced))] \<and>
   sync_unread_emails raising_gateway (\<lambda>k. NOW) 25 None dummy_synced
     = (Inl (GraphApiError 503 ''unavailable''),
        dummy_synced\<lparr>calls := calls dummy_synced @ [Fetch 25]\<rparr>) \<and>
   document (dummy_synced\<lparr>calls := calls dummy_synced @ [Fetch 25]\<rparr>) = document dummy_synced"
proof -
  have f: "fetch_unread_emails (InMemoryGraphClient []) 25 = Inr []"
    by (simp add: InMemoryGraphClient_def slice_to_def)
  obtain res st' where
    e1: "sync_unread_emails (InMemoryGraphClient []) (\<lambda>k. NOW) 25 None dummy_synced = (res, st')"
    by (cases "sync_unread_emails (InMemoryGraphClient []) (\<lambda>k. NOW) 25 None dummy_synced")
  have r1: "res = Inr []" "st' = dummy_synced\<lparr>calls := calls dummy_synced @ [Fetch 25]\<rparr>"
    using sync_saves_only_on_change[OF e1] f by simp_all
  have e3: "sync_unread_emails raising_gateway (\<lambda>k. NOW) 25 None dummy_synced
     = (Inl (GraphApiError 503 ''unavailable''),
        dummy_synced\<lparr>calls := calls dummy_synced @ [Fetch 25]\<rparr>)"
    by (simp add: sync_unread_emails_def raising_gateway_def Let_def)
  have n: "[dummy_item] \<noteq> []" by simp
  show ?thesis
    using f e1 r1 e3 n sync_dummy
      sync_saves_only_on_change[OF sync_dummy]
      sync_saves_only_on_change[OF e3]
    by simp
qed

lemma TodoItem_of_payload_clock:
  "TodoItem_of_payload now p = Inl e \<Longrightarrow> TodoItem_of_payload now' p = Inl e"
  by (auto simp: TodoItem_of_payload_def TodoItem_def split: sum.splits)

text \<open>A run of the loop that raised raises again, at the same message, on the state it left.\<close>

lemma sync_loop_raises_again:
  "sync_loop clock s ms acc st = (Inl e, st1) \<Longrightarrow>
   (\<forall>k. TodoStorage_contains st2 k = TodoStorage_contains st1 k) \<Longrightarrow>
   sync_loop clock' s ms acc' st2 = (Inl e, st2)"
proof (induction ms arbitrary: acc acc' st)
  case Nil
  then show ?case by simp
next
  case (Cons m ms)
  note same = Cons.prems(2)
  show ?case
  proof (cases "msg_id m")
    case None
    then show ?thesis using Cons.prems(1) by (simp add: subscript_def)
  next
    case (Some mid)
    show ?thesis
    proof (cases "TodoStorage_contains st mid")
      case True
      then have l: "sync_loop clock s ms acc st = (Inl e, st1)"
        using Cons.prems(1) Some by (simp add: subscript_def)
      have "TodoStorage_contains st2 mid"
        using sync_loop_frame[OF l] True same by simp
      then show ?thesis
        using Cons.IH[OF l same] Some by (simp add: subscript_def)
    next
      case False
      show ?thesis
      proof (cases "to_todo_payload m s")
        case (Inl e')
        then have "e' = e" "st1 = st"
          using Cons.prems(1) Some False by (simp_all add: subscript_def)
        then show ?thesis
          using Inl Some False same by (simp add: subscript_def)
      next
        case (Inr p)
        show ?thesis
        proof (cases "TodoItem_of_payload (clock (length acc)) p")
          case (Inl e')
          then have "e' = e" "st1 = st"
            using Cons.prems(1) Some False Inr by (simp_all add: subscript_def)
          then show ?thesis
            using TodoItem_of_payload_clock[OF Inl, of "clock' (length acc')"] Inr Some False same
            by (simp add: subscript_def)
        next
          case todo: (Inr todo)
          let ?st' = "st\<lparr>items := AList.update (message_id todo) todo (items st)\<rparr>"
          have l: "sync_loop clock s ms (acc @ [todo]) ?st' = (Inl e, st1)"
            using Cons.prems(1) Some False Inr todo
            by (simp add: subscript_def TodoStorage_add_def)
          have "message_id todo = mid"
            using to_todo_payload_id[OF Inr] TodoItem_of_payload_id[OF todo] Some by simp
          then have "TodoStorage_contains ?st' mid"
            by (simp add: contains_update)
          then have "TodoStorage_contains st2 mid"
            using sync_loop_frame[OF l] same by simp
          then show ?thesis
            using Cons.IH[OF l same] Some by (simp add: subscript_def)
        qed
      qed
    qed
  qed
qed

text \<open>
  C1. \<open>sync_unread_emails\<close> is idempotent. After a run that returned, a second run on
  the same snapshot (the gateway returns the same messages; clock and schedule override
  may differ) returns the empty list: every fetched id is in the store and is skipped,
  nothing raises. The second run changes neither the items of the store (their number
  and their contents) nor the persisted document; it only logs its fetch. After a run
  that raised, a second run with the same gateway and schedule override raises the same
  exception, and it too leaves items and document as they were.
\<close>

theorem sync_idempotent:
  assumes "sync_unread_emails gw clock limit schedule_for st = (res, st1)"
  shows
    "(\<forall>new gw' limit' clock' schedule_for'.
        res = Inr new \<and> fetch_unread_emails gw' limit' = fetch_unread_emails gw limit \<longrightarrow>
        sync_unread_emails gw' clock' limit' schedule_for' st1 =
          (Inr [], st1\<lparr>calls := calls st1 @ [Fetch limit']\<rparr>) \<and>
        items (snd (sync_unread_emails gw' clock' limit' schedule_for' st1)) = items st1 \<and>
        length (items (snd (sync_unread_emails gw' clock' limit' schedule_for' st1)))
          = length (items st1) \<and>
        document (snd (sync_unread_emails gw' clock' limit' schedule_for' st1)) = document st1) \<and>
     (\<forall>e clock'.
        res = Inl e \<longrightarrow>
        sync_unread_emails gw clock' limit schedule_for st1 =
          (Inl e, st1\<lparr>calls := calls st1 @ [Fetch limit]\<rparr>))"
proof (intro conjI allI impI)
  fix new and gw' :: gateway and limit' clock' schedule_for'
  assume a: "res = Inr new \<and> fetch_unread_emails gw' limit' = fetch_unread_emails gw limit"
  let ?st0 = "st\<lparr>calls := calls st @ [Fetch limit]\<rparr>"
  obtain messages where m: "fetch_unread_emails gw limit = Inr messages"
    using assms a by (cases "fetch_unread_emails gw limit") (auto simp: sync_unread_emails_def Let_def)
  obtain r st2 where l: "sync_loop clock schedule_for messages [] ?st0 = (r, st2)"
    by (cases "sync_loop clock schedule_for messages [] ?st0")
  have r: "r = Inr new" and st1: "st1 = (if new \<noteq> [] then TodoStorage_save st2 else st2)"
    using assms a m l by (cases r; simp add: sync_unread_emails_def Let_def)+
  have "\<forall>m \<in> set messages. \<exists>mid. msg_id m = Some mid \<and> TodoStorage_contains st2 mid"
    using sync_loop_result[OF l[unfolded r]] by simp
  then have "\<forall>m \<in> set messages. \<exists>mid. msg_id m = Some mid \<and>
      TodoStorage_contains (st1\<lparr>calls := calls st1 @ [Fetch limit']\<rparr>) mid"
    by (simp add: st1)
  then have "sync_loop clock' schedule_for' messages [] (st1\<lparr>calls := calls st1 @ [Fetch limit']\<rparr>)
      = (Inr [], st1\<lparr>calls := calls st1 @ [Fetch limit']\<rparr>)"
    by (rule sync_loop_known)
  then show s: "sync_unread_emails gw' clock' limit' schedule_for' st1 =
           (Inr [], st1\<lparr>calls := calls st1 @ [Fetch limit']\<rparr>)"
    using m a by (simp add: sync_unread_emails_def Let_def)
  show "items (snd (sync_unread_emails gw' clock' limit' schedule_for' st1)) = items st1"
    and "length (items (snd (sync_unread_emails gw' clock' limit' schedule_for' st1)))
          = length (items st1)"
    and "document (snd (sync_unread_emails gw' clock' limit' schedule_for' st1)) = document st1"
    by (simp_all add: s)
next
  fix e clock'
  assume e: "res = Inl e"
  let ?st0 = "st\<lparr>calls := calls st @ [Fetch limit]\<rparr>"
  let ?st1' = "st1\<lparr>calls := calls st1 @ [Fetch limit]\<rparr>"
  show "sync_unread_emails gw clock' limit schedule_for st1 = (Inl e, ?st1')"
  proof (cases "fetch_unread_emails gw limit")
    case (Inl e')
    then have "e' = e" using assms e by (simp add: sync_unread_emails_def Let_def)
    then show ?thesis using Inl by (simp add: sync_unread_emails_def Let_def)
  next
    case (Inr messages)
    obtain r st2 where l: "sync_loop clock schedule_for messages [] ?st0 = (r, st2)"
      by (cases "sync_loop clock schedule_for messages [] ?st0")
    have r: "r = Inl e" and st1: "st1 = st2"
      using assms e Inr l by (cases r; simp add: sync_unread_emails_def Let_def)+
    have "sync_loop clock' schedule_for messages [] ?st1' = (Inl e, ?st1')"
      by (rule sync_loop_raises_again[OF l[unfolded r]]) (simp add: st1)
    then show ?thesis using Inr by (simp add: sync_unread_emails_def Let_def)
  qed
qed

theorem sync_idempotent_witness:
  "sync_unread_emails DummyGraph (\<lambda>k. NOW) 25 None empty_store = (Inr [dummy_item], dummy_synced) \<and>
   fetch_unread_emails DummyGraph 25 = fetch_unread_emails DummyGraph 25 \<and>
   sync_unread_emails DummyGraph (\<lambda>k. NOW) 25 None dummy_synced =
     (Inr [], dummy_synced\<lparr>calls := calls dummy_synced @ [Fetch 25]\<rparr>) \<and>
   items (snd (sync_unread_emails DummyGraph (\<lambda>k. NOW) 25 None dummy_synced)) = [(''1'', dummy_item)] \<and>
   document (snd (sync_unread_emails DummyGraph (\<lambda>k. NOW) 25 None dummy_synced))
     = Some [to_dict dummy_item] \<and>
   sync_unread_emails raising_gateway (\<lambda>k. NOW) 25 None empty_store
     = (Inl (GraphApiError 503 ''unavailable''), empty_store\<lparr>calls := [Fetch 25]\<rparr>) \<and>
   sync_unread_emails raising_gateway (\<lambda>k. NOW) 25 None (empty_store\<lparr>calls := [Fetch 25]\<rparr>)
     = (Inl (GraphApiError 503 ''unavailable''), empty_store\<lparr>calls := [Fetch 25, Fetch 25]\<rparr>)"
proof -
  have f: "fetch_unread_emails DummyGraph 25 = fetch_unread_emails DummyGraph 25"
    by (rule refl)
  have e: "sync_unread_emails raising_gateway (\<lambda>k. NOW) 25 None empty_store
     = (Inl (GraphApiError 503 ''unavailable''), empty_store\<lparr>calls := [Fetch 25]\<rparr>)"
    by (simp add: sync_unread_emails_def raising_gateway_def empty_store_def Let_def)
  have 1: "sync_unread_emails DummyGraph (\<lambda>k. NOW) 25 None dummy_synced =
     (Inr [], dummy_synced\<lparr>calls := calls dummy_synced @ [Fetch 25]\<rparr>)"
    using sync_idempotent[OF sync_dummy] f by blast
  have 2: "sync_unread_emails raising_gateway (\<lambda>k. NOW) 25 None (empty_store\<lparr>calls := [Fetch 25]\<rparr>)
     = (Inl (GraphApiError 503 ''unavailable''), empty_store\<lparr>calls := [Fetch 25, Fetch 25]\<rparr>)"
    using sync_idempotent[OF e] by simp
  show ?thesis
    using sync_dummy e 1 2 by (simp add: dummy_synced_def)
qed

subsection \<open>Manual items\<close>

lemma contains_iff_key: "TodoStorage_contains st k \<longleftrightarrow> k \<in> fst ` set (items st)"
  by (simp add: TodoStorage_contains_def map_of_eq_None_iff)

lemma length_alist_update:
  "length (AList.update k v al) = (if k \<in> fst ` set al then length al else Suc (length al))"
  using arg_cong[OF AList.update_keys[of k v al], of length] by (simp split: if_splits)

text \<open>
  C9. \<open>add_manual_item\<close> never raises a duplicate-key error: on every store (with aware
  timestamps) and every aware schedule it returns an item whose id is \<open>manual-\<close>
  followed by the number of stored items plus one, stored under that id and saved. When
  the store already holds that id, the keys of the store and its size are those of
  before and the item held under the id is the new one: the old one is gone. Otherwise
  the size grows by one. The store \<open>manual_state\<close> (two manual adds, the first removed)
  is such a state.
\<close>

theorem add_manual_item_overwrites:
  assumes "aware_store st" and "aware sched"
  shows "\<exists>todo st'.
           add_manual_item now subj sndr sched body link st = (Inr todo, st') \<and>
           message_id todo = ''manual-'' @ str_nat (length (items st) + 1) \<and>
           subject todo = subj \<and>
           TodoStorage_get st' (message_id todo) = Some todo \<and>
           (TodoStorage_contains st (message_id todo) \<longrightarrow>
              map fst (items st') = map fst (items st) \<and>
              length (items st') = length (items st)) \<and>
           (\<not> TodoStorage_contains st (message_id todo) \<longrightarrow>
              length (items st') = length (items st) + 1)"
proof -
  define mid where "mid = ''manual-'' @ str_nat (length (items st) + 1)"
  define todo where "todo = \<lparr>message_id = mid, subject = subj, sender = sndr,
      received_at = sched, scheduled_for = sched, body_preview = body, web_link = link,
      completed = False,
      created_at = (if tzinfo now = None then now\<lparr>tzinfo := Some 0\<rparr> else now)\<rparr>"
  define st1 where "st1 = TodoStorage_save (st\<lparr>items := AList.update mid todo (items st)\<rparr>)"
  have m: "message_id todo = mid" and s: "subject todo = subj"
    by (simp_all add: todo_def)
  have a: "TodoStorage_all st =
      Inr (sort_key (\<lambda>item. instant (scheduled_for item)) (map snd (items st)))"
    using assms(1) by (auto simp: TodoStorage_all_def aware_store_def Let_def)
  have t: "TodoItem mid subj sndr sched sched body link False now = Inr todo"
    using assms(2) by (simp add: TodoItem_def ensure_tz_def aware_def todo_def)
  have "add_manual_item now subj sndr sched body link st =
      (case TodoItem mid subj sndr sched sched body link False now of
         Inl e \<Rightarrow> (Inl e, st)
       | Inr todo \<Rightarrow>
           (case TodoStorage_add todo True st of
              Inl e \<Rightarrow> (Inl e, st)
            | Inr st1 \<Rightarrow> (Inr todo, TodoStorage_save st1)))"
    unfolding add_manual_item_def a mid_def by (simp add: Let_def)
  then have r: "add_manual_item now subj sndr sched body link st = (Inr todo, st1)"
    by (simp add: t TodoStorage_add_def m st1_def)
  have i: "items st1 = AList.update mid todo (items st)"
    by (simp add: st1_def TodoStorage_save_def Let_def)
  have g: "TodoStorage_get st1 mid = Some todo"
    by (simp add: TodoStorage_get_def i AList.update_conv')
  have k: "TodoStorage_contains st mid \<longrightarrow>
      map fst (items st1) = map fst (items st) \<and> length (items st1) = length (items st)"
    by (simp add: i contains_iff_key AList.update_keys length_alist_update)
  have n: "\<not> TodoStorage_contains st mid \<longrightarrow> length (items st1) = length (items st) + 1"
    by (simp add: i contains_iff_key length_alist_update)
  have "add_manual_item now subj sndr sched body link st = (Inr todo, st1) \<and>
           message_id todo = ''manual-'' @ str_nat (length (items st) + 1) \<and>
           subject todo = subj \<and>
           TodoStorage_get st1 (message_id todo) = Some todo \<and>
           (TodoStorage_contains st (message_id todo) \<longrightarrow>
              map fst (items st1) = map fst (items st) \<and>
              length (items st1) = length (items st)) \<and>
           (\<not> TodoStorage_contains st (message_id todo) \<longrightarrow>
              length (items st1) = length (items st) + 1)"
    using r g k n s unfolding m by (simp add: mid_def)
  then show ?thesis by (intro exI)
qed


lemma digit_char_nth: "n < 10 \<Longrightarrow> digit_char n = ''0123456789'' ! n"
proof -
  assume "n < 10"
  then have "n \<in> {0, 1, 2, 3, 4, 5, 6, 7, 8, 9}" by auto
  then show ?thesis
    by (elim insertE emptyE) (simp_all add: digit_char_def char_of_eq_iff)
qed

lemma manual_state_items:
  "items manual_state =
     [(''manual-2'',
       \<lparr>message_id = ''manual-2'', subject = ''b'', sender = ''me'', received_at = NOW,
        scheduled_for = NOW, body_preview = [], web_link = None, completed = False,
        created_at = NOW\<rparr>)]"
proof -
  have tz: "tzinfo NOW = Some 0" by (simp add: NOW_def)
  show ?thesis
    by (simp add: manual_state_def add_manual_item_def TodoStorage_all_def empty_store_def
        TodoItem_def ensure_tz_def TodoStorage_add_def TodoStorage_save_def
        TodoStorage_remove_def TodoStorage_contains_def str_nat.simps digit_char_nth
        tz aware_def Let_def)
qed

theorem add_manual_item_overwrites_witness:
  "aware_store manual_state \<and> aware NOW \<and>
   TodoStorage_contains manual_state ''manual-2'' \<and>
   map (\<lambda>(k, item). subject item) (items manual_state) = [''b''] \<and>
   (\<exists>todo st'.
      add_manual_item NOW ''c'' ''me'' NOW [] None manual_state = (Inr todo, st') \<and>
      message_id todo = ''manual-2'' \<and> subject todo = ''c'' \<and>
      TodoStorage_get st' ''manual-2'' = Some todo \<and>
      length (items st') = 1) \<and>
   aware_store empty_store \<and> \<not> TodoStorage_contains empty_store ''manual-1'' \<and>
   (\<exists>todo st'.
      add_manual_item NOW ''a'' ''me'' NOW [] None empty_store = (Inr todo, st') \<and>
      message_id todo = ''manual-1'' \<and> length (items st') = 1)"
proof -
  have tz: "tzinfo NOW = Some 0" by (simp add: NOW_def)
  have h1: "aware_store manual_state"
    by (simp add: aware_store_def manual_state_items aware_def tz)
  have h2: "aware NOW" by (simp add: aware_def tz)
  have c: "TodoStorage_contains manual_state ''manual-2''"
    by (simp add: TodoStorage_contains_def manual_state_items)
  have n: "''manual-'' @ str_nat (length (items manual_state) + 1) = ''manual-2''"
    by (simp add: manual_state_items str_nat.simps digit_char_nth)
  have l: "length (items manual_state) = 1"
    by (simp add: manual_state_items)
  have b: "map (\<lambda>(k, item). subject item) (items manual_state) = [''b'']"
    by (simp add: manual_state_items)
  obtain todo st' where
    r: "add_manual_item NOW ''c'' ''me'' NOW [] None manual_state = (Inr todo, st')"
    and m: "message_id todo = ''manual-'' @ str_nat (length (items manual_state) + 1)"
    and s: "subject todo = ''c''"
    and g: "TodoStorage_get st' (message_id todo) = Some todo"
    and k: "TodoStorage_contains manual_state (message_id todo) \<longrightarrow>
              map fst (items st') = map fst (items manual_state) \<and>
              length (items st') = length (items manual_state)"
    using add_manual_item_overwrites[OF h1 h2, of NOW "''c''" "''me''" "[]" None]
    by (elim exE conjE)
  have m2: "message_id todo = ''manual-2''" using m n by simp
  have "length (items st') = 1" using k c l by (simp add: m2)
  then have 1: "\<exists>todo st'.
      add_manual_item NOW ''c'' ''me'' NOW [] None manual_state = (Inr todo, st') \<and>
      message_id todo = ''manual-2'' \<and> subject todo = ''c'' \<and>
      TodoStorage_get st' ''manual-2'' = Some todo \<and>
      length (items st') = 1"
    using r m2 s g by (intro exI[of _ todo] exI[of _ st']) simp
  have h3: "aware_store empty_store"
    by (simp add: aware_store_def empty_store_def)
  have c0: "\<not> TodoStorage_contains empty_store ''manual-1''"
    by (simp add: TodoStorage_contains_def empty_store_def)
  have n0: "''manual-'' @ str_nat (length (items empty_store) + 1) = ''manual-1''"
    by (simp add: empty_store_def str_nat.simps digit_char_nth)
  obtain todo0 st0 where
    r0: "add_manual_item NOW ''a'' ''me'' NOW [] None empty_store = (Inr todo0, st0)"
    and m0: "message_id todo0 = ''manual-'' @ str_nat (length (items empty_store) + 1)"
    and k0: "\<not> TodoStorage_contains empty_store (message_id todo0) \<longrightarrow>
              length (items st0) = length (items empty_store) + 1"
    using add_manual_item_overwrites[OF h3 h2, of NOW "''a''" "''me''" "[]" None]
    by (elim exE conjE)
  have m1: "message_id todo0 = ''manual-1''" using m0 n0 by simp
  have "length (items st0) = 1" using k0 c0 by (simp add: m1 empty_store_def)
  then have 2: "\<exists>todo st'.
      add_manual_item NOW ''a'' ''me'' NOW [] None empty_store = (Inr todo, st') \<and>
      message_id todo = ''manual-1'' \<and> length (items st') = 1"
    using r0 m1 by (intro exI[of _ todo0] exI[of _ st0]) simp
  show ?thesis
    by (intro conjI h1 h2 c b 1 h3 c0 2)
qed

subsection \<open>Export of the active items\<close>























end
